theory Spec2Isabelle
  imports Complex_Main "HOL-Library.Word" "HOL-Library.Sublist"
begin

section \<open>JavaScript values\<close>

text \<open>
  The server is one TypeScript module, \<^verbatim>\<open>src/index.ts\<close>. Its handlers build strings
  with template literals, compute with JavaScript numbers and read JSON documents
  returned by web services. This section fixes how those values are represented.

  A JavaScript string is a sequence of 16-bit code units; a template literal
  concatenates such sequences. Text outside ASCII is written as code units, with a
  gloss beside each constant.
\<close>

type_synonym jsstring = "16 word list"

definition ascii :: "string \<Rightarrow> jsstring" where
  "ascii s = map of_char s"

text \<open>
  A number is an IEEE double: a finite value, which is a rational, one of the two
  infinities, or NaN. The two zeros are one value here: the module compares with
  \<^verbatim>\<open>=== 0\<close>, which both zeros satisfy, and prints numbers, where both print as
  \<^verbatim>\<open>0\<close>; the one operation that tells them apart, a division by zero, is left to the
  engine below.
\<close>

datatype number = Fin rat | PosInfinity | NegInfinity | NaN

text \<open>A value as \<^verbatim>\<open>JSON.parse\<close> builds it, together with \<^verbatim>\<open>undefined\<close>.\<close>

datatype jsval =
    Undefined
  | Null
  | Bool bool
  | Num number
  | Str jsstring
  | Arr "jsval list"
  | Obj "(jsstring \<times> jsval) list"

text \<open>
  What a \<^verbatim>\<open>throw\<close> carries: an \<^verbatim>\<open>Error\<close> object with its message, or any other
  value (the \<^verbatim>\<open>catch\<close> blocks of the module test \<^verbatim>\<open>error instanceof Error\<close>).
\<close>

datatype thrown = Error jsstring | NonError

text \<open>
  The parts of the language runtime whose results the module only passes on are
  parameters of the model: rounding of results that are not small integers, printing
  of numbers that are not small integers, parsing of numbers, conversion of objects
  to strings, the wording of the engine's own \<^verbatim>\<open>TypeError\<close>s, the properties every
  object inherits, URL encoding, date formatting, Base64 and JSON printing. Every
  theorem below holds for every engine.
\<close>

record engine =
  round_to_double :: "rat \<Rightarrow> number"
  divide_by_zero :: "number \<Rightarrow> number"
  decimal_string :: "rat \<Rightarrow> jsstring"
  parseFloat :: "jsstring \<Rightarrow> number"
  string_to_number :: "jsstring \<Rightarrow> number"
  object_to_string :: "jsval \<Rightarrow> thrown + jsstring"
  type_error_message :: "jsval \<Rightarrow> jsstring \<Rightarrow> jsstring"
  object_prototype :: "jsstring \<Rightarrow> jsstring option"
  url_search_params :: "(jsstring \<times> jsstring) list \<Rightarrow> jsstring"
  to_locale_date_string :: "jsval \<Rightarrow> thrown + jsstring"
  toISOString :: "int \<Rightarrow> jsstring"
  base64 :: "8 word list \<Rightarrow> jsstring"
  JSON_stringify :: "jsval \<Rightarrow> jsstring"

subsection \<open>Arithmetic\<close>

text \<open>
  An integer of magnitude at most \<open>2^53 - 1\<close> is a double, so an operation whose exact
  result is such an integer returns it; every other exact result is rounded by the
  engine.
\<close>

definition is_safe_integer :: "rat \<Rightarrow> bool" where
  "is_safe_integer r = (of_int \<lfloor>r\<rfloor> = r \<and> \<bar>r\<bar> \<le> 9007199254740991)"

definition fp :: "engine \<Rightarrow> rat \<Rightarrow> number" where
  "fp en r = (if is_safe_integer r then Fin r else round_to_double en r)"

fun js_neg :: "number \<Rightarrow> number" where
  "js_neg (Fin a) = Fin (- a)"
| "js_neg PosInfinity = NegInfinity"
| "js_neg NegInfinity = PosInfinity"
| "js_neg NaN = NaN"

fun js_add :: "engine \<Rightarrow> number \<Rightarrow> number \<Rightarrow> number" where
  "js_add en (Fin a) (Fin b) = fp en (a + b)"
| "js_add en NaN y = NaN"
| "js_add en x NaN = NaN"
| "js_add en PosInfinity NegInfinity = NaN"
| "js_add en NegInfinity PosInfinity = NaN"
| "js_add en PosInfinity y = PosInfinity"
| "js_add en NegInfinity y = NegInfinity"
| "js_add en (Fin a) y = y"

definition js_sub :: "engine \<Rightarrow> number \<Rightarrow> number \<Rightarrow> number" where
  "js_sub en x y = js_add en x (js_neg y)"

text \<open>The sign of a number that is not NaN, as \<open>-1\<close>, \<open>0\<close> or \<open>1\<close>.\<close>

fun sign_of :: "number \<Rightarrow> int" where
  "sign_of (Fin a) = (if a < 0 then - 1 else if a = 0 then 0 else 1)"
| "sign_of PosInfinity = 1"
| "sign_of NegInfinity = - 1"
| "sign_of NaN = 0"

definition signed_infinity :: "int \<Rightarrow> number" where
  "signed_infinity s = (if s = 0 then NaN else if s < 0 then NegInfinity else PosInfinity)"

fun js_mul :: "engine \<Rightarrow> number \<Rightarrow> number \<Rightarrow> number" where
  "js_mul en (Fin a) (Fin b) = fp en (a * b)"
| "js_mul en NaN y = NaN"
| "js_mul en x NaN = NaN"
| "js_mul en x y = signed_infinity (sign_of x * sign_of y)"

fun js_div :: "engine \<Rightarrow> number \<Rightarrow> number \<Rightarrow> number" where
  "js_div en NaN y = NaN"
| "js_div en x NaN = NaN"
| "js_div en x (Fin b) =
     (if b = 0 then divide_by_zero en x
      else case x of Fin a \<Rightarrow> fp en (a / b)
                   | _ \<Rightarrow> signed_infinity (sign_of x * sign_of (Fin b)))"
| "js_div en (Fin a) y = Fin 0"
| "js_div en x y = NaN"

text \<open>\<^verbatim>\<open>Math.min\<close> of two numbers and the comparison \<^verbatim>\<open><\<close>.\<close>

fun js_lt :: "number \<Rightarrow> number \<Rightarrow> bool" where
  "js_lt NaN y = False"
| "js_lt x NaN = False"
| "js_lt (Fin a) (Fin b) = (a < b)"
| "js_lt x PosInfinity = (x \<noteq> PosInfinity)"
| "js_lt NegInfinity y = (y \<noteq> NegInfinity)"
| "js_lt x y = False"

fun Math_min :: "number \<Rightarrow> number \<Rightarrow> number" where
  "Math_min NaN y = NaN"
| "Math_min x NaN = NaN"
| "Math_min x y = (if js_lt y x then y else x)"

subsection \<open>Conversion to strings\<close>

text \<open>The decimal digits of a natural number.\<close>

fun digits :: "nat \<Rightarrow> jsstring" where
  "digits n =
     (if n < 10 then [of_nat (48 + n)]
      else digits (n div 10) @ [of_nat (48 + n mod 10)])"

declare digits.simps [simp del]

text \<open>
  \<^verbatim>\<open>Number.prototype.toString\<close>: a safe integer prints as its decimal digits, with a
  minus sign when negative; any other finite value prints as the engine decides.
\<close>

definition number_to_string :: "engine \<Rightarrow> number \<Rightarrow> jsstring" where
  "number_to_string en x =
     (case x of
        NaN \<Rightarrow> ascii ''NaN''
      | PosInfinity \<Rightarrow> ascii ''Infinity''
      | NegInfinity \<Rightarrow> ascii ''-Infinity''
      | Fin r \<Rightarrow>
          if is_safe_integer r
          then (if r < 0 then ascii ''-'' else []) @ digits (nat \<bar>\<lfloor>r\<rfloor>\<bar>)
          else decimal_string en r)"

text \<open>
  The conversion a template literal applies to a value. An array or an object
  converts as the engine decides, and that conversion can throw.
\<close>

fun to_string :: "engine \<Rightarrow> jsval \<Rightarrow> thrown + jsstring" where
  "to_string en Undefined = Inr (ascii ''undefined'')"
| "to_string en Null = Inr (ascii ''null'')"
| "to_string en (Bool b) = Inr (if b then ascii ''true'' else ascii ''false'')"
| "to_string en (Num n) = Inr (number_to_string en n)"
| "to_string en (Str s) = Inr s"
| "to_string en v = object_to_string en v"

subsection \<open>Truthiness, property access, comparison\<close>

fun truthy :: "jsval \<Rightarrow> bool" where
  "truthy Undefined = False"
| "truthy Null = False"
| "truthy (Bool b) = b"
| "truthy (Num n) = (n \<noteq> Fin 0 \<and> n \<noteq> NaN)"
| "truthy (Str s) = (s \<noteq> [])"
| "truthy v = True"

text \<open>
  \<^verbatim>\<open>v.k\<close> for a property name \<open>k\<close>. Reading a property of \<^verbatim>\<open>undefined\<close> or \<^verbatim>\<open>null\<close>
  throws a \<^verbatim>\<open>TypeError\<close>. Only own properties and \<^verbatim>\<open>length\<close> are looked up: none of
  the names the module reads is inherited from a prototype. In an object the first
  binding of a name is the one the object has.
\<close>

fun get_prop :: "engine \<Rightarrow> jsval \<Rightarrow> jsstring \<Rightarrow> thrown + jsval" where
  "get_prop en Undefined k = Inl (Error (type_error_message en Undefined k))"
| "get_prop en Null k = Inl (Error (type_error_message en Null k))"
| "get_prop en (Obj kvs) k = Inr (case map_of kvs k of Some v \<Rightarrow> v | None \<Rightarrow> Undefined)"
| "get_prop en (Arr xs) k =
     Inr (if k = ascii ''length'' then Num (Fin (of_nat (length xs))) else Undefined)"
| "get_prop en (Str s) k =
     Inr (if k = ascii ''length'' then Num (Fin (of_nat (length s))) else Undefined)"
| "get_prop en v k = Inr Undefined"

text \<open>\<^verbatim>\<open>v[i]\<close> for an index \<open>i\<close>.\<close>

fun get_index :: "engine \<Rightarrow> jsval \<Rightarrow> nat \<Rightarrow> thrown + jsval" where
  "get_index en Undefined i = Inl (Error (type_error_message en Undefined (digits i)))"
| "get_index en Null i = Inl (Error (type_error_message en Null (digits i)))"
| "get_index en (Arr xs) i = Inr (if i < length xs then xs ! i else Undefined)"
| "get_index en (Str s) i = Inr (if i < length s then Str [s ! i] else Undefined)"
| "get_index en (Obj kvs) i =
     Inr (case map_of kvs (digits i) of Some v \<Rightarrow> v | None \<Rightarrow> Undefined)"
| "get_index en v i = Inr Undefined"

text \<open>
  \<^verbatim>\<open>v > 0\<close>: the value is converted to a number first; an array or an object goes
  through its string form, and that conversion can throw.
\<close>

fun to_number :: "engine \<Rightarrow> jsval \<Rightarrow> thrown + number" where
  "to_number en Undefined = Inr NaN"
| "to_number en Null = Inr (Fin 0)"
| "to_number en (Bool b) = Inr (Fin (if b then 1 else 0))"
| "to_number en (Num n) = Inr n"
| "to_number en (Str s) = Inr (string_to_number en s)"
| "to_number en v =
     (case object_to_string en v of
        Inl e \<Rightarrow> Inl e
      | Inr s \<Rightarrow> Inr (string_to_number en s))"

definition greater_than_zero :: "engine \<Rightarrow> jsval \<Rightarrow> thrown + bool" where
  "greater_than_zero en v =
     (case to_number en v of Inl e \<Rightarrow> Inl e | Inr n \<Rightarrow> Inr (js_lt (Fin 0) n))"

section \<open>Tool results\<close>

text \<open>
  A handler returns an object with a \<^verbatim>\<open>content\<close> list and, for some tools, a
  \<^verbatim>\<open>structuredContent\<close> object whose only field is again a \<^verbatim>\<open>content\<close> list;
  \<open>Some c\<close> stands for \<^verbatim>\<open>structuredContent: { content: c }\<close> and \<open>None\<close> for a
  result without that field. A handler that throws is \<open>Inl\<close>.
\<close>

datatype ContentBlock = Text jsstring | Image jsstring jsstring

record CallToolResult =
  content :: "ContentBlock list"
  structuredContent :: "ContentBlock list option"

section \<open>The greet tool\<close>

text \<open>
  The input schema gives \<^verbatim>\<open>language\<close> the type \<^verbatim>\<open>'ko' | 'en'\<close>. The Korean greeting is
  \<^verbatim>\<open>U+C548 U+B155 U+D558 U+C138 U+C694\<close> ("annyeonghaseyo"), a comma and a space, the
  name, then \<^verbatim>\<open>U+B2D8\<close> ("nim", an honorific) and an exclamation mark. The English
  greeting carries the waving-hand emoji \<^verbatim>\<open>U+1F44B\<close>, a surrogate pair.
\<close>

datatype language = Ko | En

definition greet_ko_0 :: jsstring where
  "greet_ko_0 =
     [0xC548, 0xB155, 0xD558, 0xC138, 0xC694, 0x002C, 0x0020]"

definition greet_ko_1 :: jsstring where
  "greet_ko_1 =
     [0xB2D8, 0x0021]"

definition greet_en_0 :: jsstring where
  "greet_en_0 =
     ascii ''Hey there, ''"

definition greet_en_1 :: jsstring where
  "greet_en_1 =
     [0x0021, 0x0020, 0xD83D, 0xDC4B] @
     ascii '' Nice to meet you!''"

definition greet :: "jsstring \<Rightarrow> language \<Rightarrow> thrown + CallToolResult" where
  "greet name language =
     (let greeting =
        (if language = Ko
         then greet_ko_0 @ name @ greet_ko_1
         else greet_en_0 @ name @ greet_en_1)
      in Inr \<lparr>content = [Text greeting],
              structuredContent = Some [Text greeting]\<rparr>)"

section \<open>The calculator tool\<close>

text \<open>
  The message of the error thrown for a zero divisor reads "cannot divide by 0" in
  Korean: \<^verbatim>\<open>0\<close>, \<^verbatim>\<open>U+C73C U+B85C\<close>, space, \<^verbatim>\<open>U+B098 U+B20C\<close>, space, \<^verbatim>\<open>U+C218\<close>,
  space, \<^verbatim>\<open>U+C5C6 U+C2B5 U+B2C8 U+B2E4\<close>, full stop.
\<close>

datatype operator = Plus | Minus | Times | Divide

definition division_by_zero :: jsstring where
  "division_by_zero =
     [0x0030, 0xC73C, 0xB85C, 0x0020, 0xB098, 0xB20C, 0x0020, 0xC218, 0x0020, 0xC5C6,
      0xC2B5, 0xB2C8, 0xB2E4, 0x002E]"

text \<open>
  The \<^verbatim>\<open>switch\<close> computes \<^verbatim>\<open>result\<close> and \<^verbatim>\<open>expression\<close> or throws; the text is built
  after it.
\<close>

definition calculator_switch ::
  "engine \<Rightarrow> number \<Rightarrow> number \<Rightarrow> operator \<Rightarrow> thrown + number \<times> jsstring" where
  "calculator_switch en number1 number2 operator =
     (case operator of
        Plus \<Rightarrow>
          Inr (js_add en number1 number2,
               number_to_string en number1 @ ascii '' + '' @ number_to_string en number2)
      | Minus \<Rightarrow>
          Inr (js_sub en number1 number2,
               number_to_string en number1 @ ascii '' - '' @ number_to_string en number2)
      | Times \<Rightarrow>
          Inr (js_mul en number1 number2,
               number_to_string en number1 @ ascii '' * '' @ number_to_string en number2)
      | Divide \<Rightarrow>
          if number2 = Fin 0 then Inl (Error division_by_zero)
          else Inr (js_div en number1 number2,
                    number_to_string en number1 @ ascii '' / '' @ number_to_string en number2))"

definition calculator ::
  "engine \<Rightarrow> number \<Rightarrow> number \<Rightarrow> operator \<Rightarrow> thrown + CallToolResult" where
  "calculator en number1 number2 operator =
     (case calculator_switch en number1 number2 operator of
        Inl e \<Rightarrow> Inl e
      | Inr (result, expression) \<Rightarrow>
          (let resultText = expression @ ascii '' = '' @ number_to_string en result
           in Inr \<lparr>content = [Text resultText],
                   structuredContent = Some [Text resultText]\<rparr>))"

section \<open>The world outside the process\<close>

text \<open>
  What a handler obtains from outside is read from a \<open>world\<close>: the environment
  variable and the token file read when the module is loaded, the clock, the time
  zone database behind \<^verbatim>\<open>Intl.DateTimeFormat\<close>, the network behind \<^verbatim>\<open>fetch\<close> and the
  inference service. A call that can fail returns \<open>Inl\<close> with what it throws.
  \<open>json\<close> is what \<^verbatim>\<open>response.json()\<close> resolves to, or what it rejects with.
\<close>

record response =
  ok :: bool
  status :: nat
  statusText :: jsstring
  json :: "thrown + jsval"

record world =
  process_env_HF_TOKEN :: "jsstring option"
  huggingface_token_file :: "thrown + jsstring"
  now :: int
  Intl_DateTimeFormat :: "jsstring \<Rightarrow> thrown + (int \<Rightarrow> jsstring)"
  fetch :: "jsstring \<Rightarrow> (jsstring \<times> jsstring) list \<Rightarrow> thrown + response"
  textToImage :: "jsstring \<Rightarrow> jsstring \<Rightarrow> jsstring \<Rightarrow> thrown + 8 word list"
  process_version :: jsstring
  process_platform :: jsstring
  process_arch :: jsstring
  process_uptime :: "nat \<Rightarrow> number"

text \<open>
  Every request a handler sends out is recorded, in order: a \<^verbatim>\<open>fetch\<close> with its URL
  and headers, or a text-to-image request with its token, model and prompt.
\<close>

datatype request =
    Fetch jsstring "(jsstring \<times> jsstring) list"
  | TextToImage jsstring jsstring jsstring

text \<open>Sequencing of steps that can throw: the first \<open>Inl\<close> ends the sequence.\<close>

definition and_then :: "'e + 'a \<Rightarrow> ('a \<Rightarrow> 'e + 'b) \<Rightarrow> 'e + 'b" where
  "and_then r f = (case r of Inl e \<Rightarrow> Inl e | Inr x \<Rightarrow> f x)"

subsection \<open>The HuggingFace token\<close>

text \<open>
  \<^verbatim>\<open>HF_TOKEN\<close> is the environment variable when that is set and not empty, and
  otherwise the trimmed content of the file \<^verbatim>\<open>huggingface_token\<close>, or the empty string
  when the file cannot be read. \<^verbatim>\<open>trim\<close> removes white space and line terminators
  from both ends.
\<close>

definition is_white_space :: "16 word \<Rightarrow> bool" where
  "is_white_space c =
     (c \<in> set [0x0009, 0x000A, 0x000B, 0x000C, 0x000D, 0x0020, 0x00A0, 0x1680,
                0x2000, 0x2001, 0x2002, 0x2003, 0x2004, 0x2005, 0x2006, 0x2007,
                0x2008, 0x2009, 0x200A, 0x2028, 0x2029, 0x202F, 0x205F, 0x3000,
                0xFEFF])"

definition trim :: "jsstring \<Rightarrow> jsstring" where
  "trim s = rev (dropWhile is_white_space (rev (dropWhile is_white_space s)))"

definition token_from_file :: "world \<Rightarrow> jsstring" where
  "token_from_file w =
     (case huggingface_token_file w of Inl e \<Rightarrow> [] | Inr s \<Rightarrow> trim s)"

definition HF_TOKEN :: "world \<Rightarrow> jsstring" where
  "HF_TOKEN w =
     (case process_env_HF_TOKEN w of
        None \<Rightarrow> token_from_file w
      | Some t \<Rightarrow> if t \<noteq> [] then t else token_from_file w)"

section \<open>The get_time tool\<close>

text \<open>
  The text reads "time zone: \<open>timezone\<close>", a line feed, "current time:
  \<open>formattedTime\<close>". The \<^verbatim>\<open>catch\<close> block throws a new error, "not a valid time zone:
  \<open>timezone\<close>", whatever was caught. The locale \<^verbatim>\<open>ko-KR\<close> and the format options are
  constants of the call, so the formatter depends on the time zone only.
\<close>

definition get_time_resultText :: "jsstring \<Rightarrow> jsstring \<Rightarrow> jsstring" where
  "get_time_resultText timezone formattedTime =
     [0xC2DC, 0xAC04, 0xB300, 0x003A, 0x0020] @
     timezone @
     [0x000A, 0xD604, 0xC7AC, 0x0020, 0xC2DC, 0xAC04, 0x003A, 0x0020] @
     formattedTime"

definition invalid_timezone :: "jsstring \<Rightarrow> jsstring" where
  "invalid_timezone timezone =
     [0xC720, 0xD6A8, 0xD558, 0xC9C0, 0x0020, 0xC54A, 0xC740, 0x0020, 0xC2DC, 0xAC04,
        0xB300, 0xC785, 0xB2C8, 0xB2E4, 0x003A, 0x0020] @
     timezone"

definition get_time_try :: "world \<Rightarrow> jsstring \<Rightarrow> thrown + CallToolResult" where
  "get_time_try w timezone =
     (case Intl_DateTimeFormat w timezone of
        Inl e \<Rightarrow> Inl e
      | Inr formatter \<Rightarrow>
          (let formattedTime = formatter (now w);
               resultText = get_time_resultText timezone formattedTime
           in Inr \<lparr>content = [Text resultText],
                   structuredContent = Some [Text resultText]\<rparr>))"

definition get_time :: "world \<Rightarrow> jsstring \<Rightarrow> thrown + CallToolResult" where
  "get_time w timezone =
     (case get_time_try w timezone of
        Inl e \<Rightarrow> Inl (Error (invalid_timezone timezone))
      | Inr r \<Rightarrow> Inr r)"

section \<open>The geocode tool\<close>

text \<open>
  The messages, in Korean: "API request failed: \<open>status\<close> \<open>statusText\<close>"; "cannot find
  the address: \<open>query\<close>"; the result text "address: \<open>displayName\<close>", "latitude:
  \<open>lat\<close>", "longitude: \<open>lon\<close>", "coordinates: (\<open>lat\<close>, \<open>lon\<close>)" on four lines; and
  the two errors of the \<^verbatim>\<open>catch\<close> block, "geocoding error: \<open>message\<close>" and "a geocoding
  error occurred.".
\<close>

definition api_request_failed :: "jsstring \<Rightarrow> jsstring \<Rightarrow> jsstring" where
  "api_request_failed code text =
     [0x0041, 0x0050, 0x0049, 0x0020, 0xC694, 0xCCAD, 0x0020, 0xC2E4, 0xD328, 0x003A,
        0x0020] @
     code @
     ascii '' '' @
     text"

definition address_not_found :: "jsstring \<Rightarrow> jsstring" where
  "address_not_found query =
     [0xC8FC, 0xC18C, 0xB97C, 0x0020, 0xCC3E, 0xC744, 0x0020, 0xC218, 0x0020, 0xC5C6,
        0xC2B5, 0xB2C8, 0xB2E4, 0x003A, 0x0020] @
     query"

definition geocode_resultText :: "jsstring \<Rightarrow> jsstring \<Rightarrow> jsstring \<Rightarrow> jsstring" where
  "geocode_resultText displayName lat lon =
     [0xC8FC, 0xC18C, 0x003A, 0x0020] @
     displayName @
     [0x000A, 0xC704, 0xB3C4, 0x003A, 0x0020] @
     lat @
     [0x000A, 0xACBD, 0xB3C4, 0x003A, 0x0020] @
     lon @
     [0x000A, 0xC88C, 0xD45C, 0x003A, 0x0020, 0x0028] @
     lat @
     ascii '', '' @
     lon @
     ascii '')''"

definition geocode_error :: "jsstring \<Rightarrow> jsstring" where
  "geocode_error message =
     [0xC9C0, 0xC624, 0xCF54, 0xB529, 0x0020, 0xC624, 0xB958, 0x003A, 0x0020] @
     message"

definition geocode_error_unknown :: jsstring where
  "geocode_error_unknown =
     [0xC9C0, 0xC624, 0xCF54, 0xB529, 0x0020, 0xC624, 0xB958, 0xAC00, 0x0020, 0xBC1C,
        0xC0DD, 0xD588, 0xC2B5, 0xB2C8, 0xB2E4, 0x002E]"

definition geocode_url :: "engine \<Rightarrow> jsstring \<Rightarrow> jsstring" where
  "geocode_url en query =
     ascii ''https://nominatim.openstreetmap.org/search'' @ ascii ''?'' @
     url_search_params en
       [(ascii ''q'', query), (ascii ''format'', ascii ''json''), (ascii ''limit'', ascii ''1'')]"

definition geocode_headers :: "(jsstring \<times> jsstring) list" where
  "geocode_headers = [(ascii ''User-Agent'', ascii ''MCP-Server/1.0.0'')]"

text \<open>What the handler does with the parsed reply \<open>data\<close>.\<close>

definition geocode_data :: "engine \<Rightarrow> jsstring \<Rightarrow> jsval \<Rightarrow> thrown + CallToolResult" where
  "geocode_data en query data =
     (if \<not> truthy data \<or> get_prop en data (ascii ''length'') = Inr (Num (Fin 0))
      then Inl (Error (address_not_found query))
      else
        and_then (get_index en data 0) (\<lambda>result.
        and_then (get_prop en result (ascii ''lat'')) (\<lambda>result_lat.
        and_then (to_string en result_lat) (\<lambda>lat_text.
        and_then (get_prop en result (ascii ''lon'')) (\<lambda>result_lon.
        and_then (to_string en result_lon) (\<lambda>lon_text.
        and_then (get_prop en result (ascii ''display_name'')) (\<lambda>display_name.
        and_then (if truthy display_name then to_string en display_name else Inr query)
          (\<lambda>displayName.
            (let lat = parseFloat en lat_text;
                 lon = parseFloat en lon_text;
                 resultText =
                   geocode_resultText displayName
                     (number_to_string en lat) (number_to_string en lon)
             in Inr \<lparr>content = [Text resultText],
                     structuredContent = Some [Text resultText]\<rparr>)))))))))"

definition geocode_try ::
  "engine \<Rightarrow> world \<Rightarrow> jsstring \<Rightarrow> (thrown + CallToolResult) \<times> request list" where
  "geocode_try en w query =
     (case fetch w (geocode_url en query) geocode_headers of
        Inl e \<Rightarrow> Inl e
      | Inr response \<Rightarrow>
          if \<not> ok response
          then Inl (Error (api_request_failed (digits (status response)) (statusText response)))
          else and_then (json response) (geocode_data en query),
      [Fetch (geocode_url en query) geocode_headers])"

definition geocode ::
  "engine \<Rightarrow> world \<Rightarrow> jsstring \<Rightarrow> (thrown + CallToolResult) \<times> request list" where
  "geocode en w query =
     (case geocode_try en w query of
        (Inl (Error message), requests) \<Rightarrow> (Inl (Error (geocode_error message)), requests)
      | (Inl NonError, requests) \<Rightarrow> (Inl (Error geocode_error_unknown), requests)
      | (Inr r, requests) \<Rightarrow> (Inr r, requests))"

section \<open>The get_weather tool\<close>

text \<open>
  The texts, in Korean, by source line: 333 "API error: \<open>reason\<close>"; 393 a pin emoji,
  "location: latitude \<open>latitude\<close>, longitude \<open>longitude\<close>"; 394 a thermometer emoji,
  "current weather"; 395 "temperature: \<open>currentTemp\<close>" and the degree sign with C; 396
  and 409 "weather: \<open>description\<close>"; 397 "wind speed: \<open>currentWindSpeed\<close> km/h"; 399 a
  calendar emoji, "\<open>forecast_days\<close>-day forecast (first \<open>daysToShow\<close> days)"; 407 the date
  between line feeds; 408 "high: \<open>maxTemp\<close> / low: \<open>minTemp\<close>"; 411 "precipitation:
  \<open>precipitation\<close> mm"; 389 "weather code: \<open>code\<close>"; 433 "weather lookup error:
  \<open>message\<close>"; 435 "an error occurred during the weather lookup.". The table
  \<^verbatim>\<open>weatherCodes\<close> maps WMO weather codes to Korean descriptions; its numeric keys are
  property names, that is, strings of digits.
\<close>

definition api_error :: "jsstring \<Rightarrow> jsstring" where
  "api_error reason =
     [0x0041, 0x0050, 0x0049, 0x0020, 0xC624, 0xB958, 0x003A, 0x0020] @
     reason"

definition weather_text_location :: "jsstring \<Rightarrow> jsstring \<Rightarrow> jsstring" where
  "weather_text_location latitude longitude =
     [0xD83D, 0xDCCD, 0x0020, 0xC704, 0xCE58, 0x003A, 0x0020, 0xC704, 0xB3C4, 0x0020] @
     latitude @
     [0x002C, 0x0020, 0xACBD, 0xB3C4, 0x0020] @
     longitude @
     [0x000A, 0x000A]"

definition weather_text_current :: jsstring where
  "weather_text_current =
     [0xD83C, 0xDF21, 0xFE0F, 0x0020, 0xD604, 0xC7AC, 0x0020, 0xB0A0, 0xC528, 0x000A]"

definition weather_text_temperature :: "jsstring \<Rightarrow> jsstring" where
  "weather_text_temperature currentTemp =
     [0xC628, 0xB3C4, 0x003A, 0x0020] @
     currentTemp @
     [0x00B0, 0x0043, 0x000A]"

definition weather_text_weather :: "jsstring \<Rightarrow> jsstring" where
  "weather_text_weather description =
     [0xB0A0, 0xC528, 0x003A, 0x0020] @
     description @
     [0x000A]"

definition weather_text_wind :: "jsstring \<Rightarrow> jsstring" where
  "weather_text_wind currentWindSpeed =
     [0xD48D, 0xC18D, 0x003A, 0x0020] @
     currentWindSpeed @
     [0x0020, 0x006B, 0x006D, 0x002F, 0x0068, 0x000A, 0x000A]"

definition weather_text_forecast :: "jsstring \<Rightarrow> jsstring \<Rightarrow> jsstring" where
  "weather_text_forecast forecast_days daysToShow =
     [0xD83D, 0xDCC5, 0x0020] @
     forecast_days @
     [0xC77C, 0x0020, 0xC608, 0xBCF4, 0x0020, 0x0028, 0xCC98, 0xC74C, 0x0020] @
     daysToShow @
     [0xC77C, 0x0029, 0x000A]"

definition weather_text_date :: "jsstring \<Rightarrow> jsstring" where
  "weather_text_date dateStr =
     [0x000A] @
     dateStr @
     [0x000A]"

definition weather_text_high_low :: "jsstring \<Rightarrow> jsstring \<Rightarrow> jsstring" where
  "weather_text_high_low maxTemp minTemp =
     [0xCD5C, 0xACE0, 0x003A, 0x0020] @
     maxTemp @
     [0x00B0, 0x0043, 0x0020, 0x002F, 0x0020, 0xCD5C, 0xC800, 0x003A, 0x0020] @
     minTemp @
     [0x00B0, 0x0043, 0x000A]"

definition weather_text_precipitation :: "jsstring \<Rightarrow> jsstring" where
  "weather_text_precipitation precipitation =
     [0xAC15, 0xC218, 0xB7C9, 0x003A, 0x0020] @
     precipitation @
     [0x0020, 0x006D, 0x006D, 0x000A]"

definition weather_code_unknown :: "jsstring \<Rightarrow> jsstring" where
  "weather_code_unknown code =
     [0xB0A0, 0xC528, 0x0020, 0xCF54, 0xB4DC, 0x003A, 0x0020] @
     code"

definition weather_error :: "jsstring \<Rightarrow> jsstring" where
  "weather_error message =
     [0xB0A0, 0xC528, 0x0020, 0xC815, 0xBCF4, 0x0020, 0xC870, 0xD68C, 0x0020, 0xC624,
        0xB958, 0x003A, 0x0020] @
     message"

definition weather_error_unknown :: jsstring where
  "weather_error_unknown =
     [0xB0A0, 0xC528, 0x0020, 0xC815, 0xBCF4, 0x0020, 0xC870, 0xD68C, 0x0020, 0xC911,
        0x0020, 0xC624, 0xB958, 0xAC00, 0x0020, 0xBC1C, 0xC0DD, 0xD588, 0xC2B5, 0xB2C8,
        0xB2E4, 0x002E]"

definition weatherCodes :: "(jsstring \<times> jsstring) list" where
  "weatherCodes =
     [(ascii ''0'', [0xB9D1, 0xC74C]),
      (ascii ''1'', [0xB300, 0xCCB4, 0xB85C, 0x0020, 0xB9D1, 0xC74C]),
      (ascii ''2'', [0xBD80, 0xBD84, 0xC801, 0xC73C, 0xB85C, 0x0020, 0xD750, 0xB9BC]),
      (ascii ''3'', [0xD750, 0xB9BC]),
      (ascii ''45'', [0xC548, 0xAC1C]),
      (ascii ''48'', [0xCE68, 0xC801, 0x0020, 0xC548, 0xAC1C]),
      (ascii ''51'', [0xC57D, 0xD55C, 0x0020, 0xC774, 0xC2AC, 0xBE44]),
      (ascii ''53'', [0xBCF4, 0xD1B5, 0x0020, 0xC774, 0xC2AC, 0xBE44]),
      (ascii ''55'', [0xAC15, 0xD55C, 0x0020, 0xC774, 0xC2AC, 0xBE44]),
      (ascii ''56'', [0xC57D, 0xD55C, 0x0020, 0xB3D9, 0xACB0, 0x0020, 0xC774, 0xC2AC, 0xBE44]),
      (ascii ''57'', [0xAC15, 0xD55C, 0x0020, 0xB3D9, 0xACB0, 0x0020, 0xC774, 0xC2AC, 0xBE44]),
      (ascii ''61'', [0xC57D, 0xD55C, 0x0020, 0xBE44]),
      (ascii ''63'', [0xBCF4, 0xD1B5, 0x0020, 0xBE44]),
      (ascii ''65'', [0xAC15, 0xD55C, 0x0020, 0xBE44]),
      (ascii ''66'', [0xC57D, 0xD55C, 0x0020, 0xB3D9, 0xACB0, 0x0020, 0xBE44]),
      (ascii ''67'', [0xAC15, 0xD55C, 0x0020, 0xB3D9, 0xACB0, 0x0020, 0xBE44]),
      (ascii ''71'', [0xC57D, 0xD55C, 0x0020, 0xB208]),
      (ascii ''73'', [0xBCF4, 0xD1B5, 0x0020, 0xB208]),
      (ascii ''75'', [0xAC15, 0xD55C, 0x0020, 0xB208]),
      (ascii ''77'', [0xB208, 0xC54C, 0xAC31, 0xC774]),
      (ascii ''80'', [0xC57D, 0xD55C, 0x0020, 0xC18C, 0xB098, 0xAE30]),
      (ascii ''81'', [0xBCF4, 0xD1B5, 0x0020, 0xC18C, 0xB098, 0xAE30]),
      (ascii ''82'', [0xAC15, 0xD55C, 0x0020, 0xC18C, 0xB098, 0xAE30]),
      (ascii ''85'', [0xC57D, 0xD55C, 0x0020, 0xB208, 0x0020, 0xC18C, 0xB098, 0xAE30]),
      (ascii ''86'', [0xAC15, 0xD55C, 0x0020, 0xB208, 0x0020, 0xC18C, 0xB098, 0xAE30]),
      (ascii ''95'', [0xB1CC, 0xC6B0]),
      (ascii ''96'', [0xC6B0, 0xBC15, 0xACFC, 0x0020, 0xD568, 0xAED8, 0x0020, 0xB1CC, 0xC6B0]),
      (ascii ''99'', [0xAC15, 0xD55C, 0x0020, 0xC6B0, 0xBC15, 0xACFC, 0x0020, 0xD568, 0xAED8, 0x0020,
          0xB1CC, 0xC6B0])]"


definition weather_url :: "engine \<Rightarrow> number \<Rightarrow> number \<Rightarrow> number \<Rightarrow> jsstring" where
  "weather_url en latitude longitude forecast_days =
     ascii ''https://api.open-meteo.com/v1/forecast'' @ ascii ''?'' @
     url_search_params en
       [(ascii ''latitude'', number_to_string en latitude),
        (ascii ''longitude'', number_to_string en longitude),
        (ascii ''current_weather'', ascii ''true''),
        (ascii ''hourly'',
         ascii ''temperature_2m,relativehumidity_2m,precipitation,weathercode,windspeed_10m''),
        (ascii ''daily'',
         ascii ''temperature_2m_max,temperature_2m_min,precipitation_sum,weathercode''),
        (ascii ''forecast_days'', number_to_string en forecast_days),
        (ascii ''timezone'', ascii ''auto'')]"

text \<open>The object pushed onto \<^verbatim>\<open>dailyForecast\<close> for day \<open>i\<close>.\<close>

record forecast_day =
  date :: jsval
  maxTemp :: jsval
  minTemp :: jsval
  precipitation :: jsval
  weathercode :: jsval

definition forecast_entry :: "engine \<Rightarrow> jsval \<Rightarrow> nat \<Rightarrow> thrown + forecast_day" where
  "forecast_entry en daily i =
     and_then (get_prop en daily (ascii ''time'')) (\<lambda>times.
     and_then (get_index en times i) (\<lambda>d.
     and_then (get_prop en daily (ascii ''temperature_2m_max'')) (\<lambda>maxs.
     and_then (get_index en maxs i) (\<lambda>mx.
     and_then (get_prop en daily (ascii ''temperature_2m_min'')) (\<lambda>mins.
     and_then (get_index en mins i) (\<lambda>mn.
     and_then (get_prop en daily (ascii ''precipitation_sum'')) (\<lambda>amounts.
     and_then (get_index en amounts i) (\<lambda>p.
     and_then (get_prop en daily (ascii ''weathercode'')) (\<lambda>codes.
     and_then (get_index en codes i) (\<lambda>c.
       Inr \<lparr>date = d, maxTemp = mx, minTemp = mn, precipitation = p,
            weathercode = c\<rparr>))))))))))"

text \<open>
  The \<^verbatim>\<open>for\<close> loop, from counter \<open>i\<close> with the entries pushed so far; its bound is
  \<^verbatim>\<open>daysToShow = Math.min(forecast_days, 3)\<close>.
\<close>

function forecast_loop ::
  "engine \<Rightarrow> jsval \<Rightarrow> number \<Rightarrow> nat \<Rightarrow> forecast_day list \<Rightarrow> thrown + forecast_day list" where
  "forecast_loop en daily forecast_days i dailyForecast =
     (if js_lt (Fin (of_nat i)) (Math_min forecast_days (Fin 3))
      then case forecast_entry en daily i of
             Inl e \<Rightarrow> Inl e
           | Inr day \<Rightarrow> forecast_loop en daily forecast_days (Suc i) (dailyForecast @ [day])
      else Inr dailyForecast)"
  by pat_completeness auto
termination
proof (relation "measure (\<lambda>(en, daily, forecast_days, i, dailyForecast). 3 - i)")
  show "wf (measure (\<lambda>(en, daily, forecast_days, i, dailyForecast). 3 - i))"
    by simp
next
  fix en :: engine and daily :: jsval and forecast_days :: number and i :: nat
    and dailyForecast :: "forecast_day list" and day :: forecast_day
  assume "js_lt (Fin (of_nat i)) (Math_min forecast_days (Fin 3))"
  then have "i < 3"
    by (cases forecast_days) (auto split: if_splits)
  then show "((en, daily, forecast_days, Suc i, dailyForecast @ [day]),
              (en, daily, forecast_days, i, dailyForecast))
             \<in> measure (\<lambda>(en, daily, forecast_days, i, dailyForecast). 3 - i)"
    by simp
qed

declare forecast_loop.simps [simp del]

text \<open>
  \<^verbatim>\<open>getWeatherDescription\<close>: the code is turned into a property name and looked up in
  the table; a name that is not in the table can still be one that every object
  inherits, and then the inherited value is what the template prints.
\<close>

definition getWeatherDescription :: "engine \<Rightarrow> jsval \<Rightarrow> thrown + jsstring" where
  "getWeatherDescription en code =
     and_then (to_string en code) (\<lambda>key.
       case map_of weatherCodes key of
         Some description \<Rightarrow> Inr description
       | None \<Rightarrow>
           (case object_prototype en key of
              Some inherited \<Rightarrow> Inr inherited
            | None \<Rightarrow> Inr (weather_code_unknown key)))"

text \<open>The text one pass of the \<^verbatim>\<open>forEach\<close> callback appends for \<open>day\<close>.\<close>

definition forecast_text :: "engine \<Rightarrow> forecast_day \<Rightarrow> thrown + jsstring" where
  "forecast_text en day =
     and_then (to_locale_date_string en (date day)) (\<lambda>dateStr.
     and_then (to_string en (maxTemp day)) (\<lambda>mx.
     and_then (to_string en (minTemp day)) (\<lambda>mn.
     and_then (getWeatherDescription en (weathercode day)) (\<lambda>description.
     and_then (greater_than_zero en (precipitation day)) (\<lambda>wet.
     and_then (if wet then to_string en (precipitation day) else Inr []) (\<lambda>p.
       Inr (weather_text_date dateStr @
            weather_text_high_low mx mn @
            weather_text_weather description @
            (if wet then weather_text_precipitation p else []))))))))"

fun append_forecast :: "engine \<Rightarrow> jsstring \<Rightarrow> forecast_day list \<Rightarrow> thrown + jsstring" where
  "append_forecast en resultText [] = Inr resultText"
| "append_forecast en resultText (day # days) =
     (case forecast_text en day of
        Inl e \<Rightarrow> Inl e
      | Inr t \<Rightarrow> append_forecast en (resultText @ t) days)"

text \<open>What the handler does with the parsed reply \<open>data\<close>.\<close>

definition get_weather_data ::
  "engine \<Rightarrow> number \<Rightarrow> number \<Rightarrow> number \<Rightarrow> jsval \<Rightarrow> thrown + CallToolResult" where
  "get_weather_data en latitude longitude forecast_days data =
     and_then (get_prop en data (ascii ''error'')) (\<lambda>data_error.
       if truthy data_error
       then and_then (get_prop en data (ascii ''reason'')) (\<lambda>data_reason.
            and_then (to_string en data_reason) (\<lambda>reason.
              Inl (Error (api_error reason))))
       else
         and_then (get_prop en data (ascii ''current_weather'')) (\<lambda>current.
         and_then (get_prop en current (ascii ''temperature'')) (\<lambda>currentTemp.
         and_then (get_prop en current (ascii ''weathercode'')) (\<lambda>currentWeathercode.
         and_then (get_prop en current (ascii ''windspeed'')) (\<lambda>currentWindSpeed.
         and_then (get_prop en data (ascii ''daily'')) (\<lambda>daily.
         and_then (forecast_loop en daily forecast_days 0 []) (\<lambda>dailyForecast.
         and_then (to_string en currentTemp) (\<lambda>temperature.
         and_then (getWeatherDescription en currentWeathercode) (\<lambda>description.
         and_then (to_string en currentWindSpeed) (\<lambda>wind.
         and_then
           (append_forecast en
              (weather_text_location
                 (number_to_string en latitude) (number_to_string en longitude) @
               weather_text_current @
               weather_text_temperature temperature @
               weather_text_weather description @
               weather_text_wind wind @
               weather_text_forecast
                 (number_to_string en forecast_days)
                 (number_to_string en (Math_min forecast_days (Fin 3))))
              dailyForecast)
           (\<lambda>resultText.
              Inr \<lparr>content = [Text resultText],
                   structuredContent = Some [Text resultText]\<rparr>)))))))))))"

text \<open>
  The handler's parameter \<^verbatim>\<open>forecast_days = 7\<close> has a default: \<open>None\<close> is a call
  without that argument.
\<close>

definition get_weather_try ::
  "engine \<Rightarrow> world \<Rightarrow> number \<Rightarrow> number \<Rightarrow> number option
     \<Rightarrow> (thrown + CallToolResult) \<times> request list" where
  "get_weather_try en w latitude longitude forecast_days_argument =
     (let forecast_days =
            (case forecast_days_argument of None \<Rightarrow> Fin 7 | Some n \<Rightarrow> n);
          url = weather_url en latitude longitude forecast_days
      in (case fetch w url [] of
            Inl e \<Rightarrow> Inl e
          | Inr response \<Rightarrow>
              if \<not> ok response
              then Inl (Error (api_request_failed (digits (status response))
                                 (statusText response)))
              else and_then (json response)
                     (get_weather_data en latitude longitude forecast_days),
          [Fetch url []]))"

definition get_weather ::
  "engine \<Rightarrow> world \<Rightarrow> number \<Rightarrow> number \<Rightarrow> number option
     \<Rightarrow> (thrown + CallToolResult) \<times> request list" where
  "get_weather en w latitude longitude forecast_days_argument =
     (case get_weather_try en w latitude longitude forecast_days_argument of
        (Inl (Error message), requests) \<Rightarrow> (Inl (Error (weather_error message)), requests)
      | (Inl NonError, requests) \<Rightarrow> (Inl (Error weather_error_unknown), requests)
      | (Inr r, requests) \<Rightarrow> (Inr r, requests))"

section \<open>The generate_image tool\<close>

text \<open>
  The error for a missing token reads "The HuggingFace token is not set. Set the
  HF_TOKEN environment variable or create the huggingface_token file."; the errors
  of the \<^verbatim>\<open>catch\<close> block read "image generation error: \<open>message\<close>" and "an error
  occurred during image generation.". The provider \<^verbatim>\<open>auto\<close> and the four inference
  steps are constants of the request; the service answers with the bytes of an image,
  which the handler encodes in Base64.
\<close>

definition token_missing :: jsstring where
  "token_missing =
     ascii ''HuggingFace '' @
       [0xD1A0, 0xD070, 0xC774, 0x0020, 0xC124, 0xC815, 0xB418, 0xC9C0, 0x0020, 0xC54A,
        0xC558, 0xC2B5, 0xB2C8, 0xB2E4] @
       ascii ''. HF_TOKEN '' @
       [0xD658, 0xACBD, 0xBCC0, 0xC218, 0xB97C, 0x0020, 0xC124, 0xC815, 0xD558, 0xAC70,
        0xB098] @
       ascii '' huggingface_token '' @
       [0xD30C, 0xC77C, 0xC744, 0x0020, 0xC0DD, 0xC131, 0xD558, 0xC138, 0xC694, 0x002E]"

definition image_error :: "jsstring \<Rightarrow> jsstring" where
  "image_error message =
     [0xC774, 0xBBF8, 0xC9C0, 0x0020, 0xC0DD, 0xC131, 0x0020, 0xC624, 0xB958, 0x003A,
        0x0020] @
     message"

definition image_error_unknown :: jsstring where
  "image_error_unknown =
     [0xC774, 0xBBF8, 0xC9C0, 0x0020, 0xC0DD, 0xC131, 0x0020, 0xC911, 0x0020, 0xC624,
        0xB958, 0xAC00, 0x0020, 0xBC1C, 0xC0DD, 0xD588, 0xC2B5, 0xB2C8, 0xB2E4, 0x002E]"

definition flux_model :: jsstring where
  "flux_model = ascii ''black-forest-labs/FLUX.1-schnell''"

definition generate_image_try ::
  "engine \<Rightarrow> world \<Rightarrow> jsstring \<Rightarrow> (thrown + CallToolResult) \<times> request list" where
  "generate_image_try en w prompt =
     (if HF_TOKEN w = [] then (Inl (Error token_missing), [])
      else
        (case textToImage w (HF_TOKEN w) flux_model prompt of
           Inl e \<Rightarrow> Inl e
         | Inr imageBlob \<Rightarrow>
             (let base64Data = base64 en imageBlob
              in Inr \<lparr>content = [Image base64Data (ascii ''image/png'')],
                      structuredContent = None\<rparr>),
         [TextToImage (HF_TOKEN w) flux_model prompt]))"

definition generate_image ::
  "engine \<Rightarrow> world \<Rightarrow> jsstring \<Rightarrow> (thrown + CallToolResult) \<times> request list" where
  "generate_image en w prompt =
     (case generate_image_try en w prompt of
        (Inl (Error message), requests) \<Rightarrow> (Inl (Error (image_error message)), requests)
      | (Inl NonError, requests) \<Rightarrow> (Inl (Error image_error_unknown), requests)
      | (Inr r, requests) \<Rightarrow> (Inr r, requests))"

section \<open>The tool registry\<close>

text \<open>
  A schema is written with the combinators of the schema library. The terms below
  follow the chains in the module: \<^verbatim>\<open>z.string()\<close>, \<^verbatim>\<open>z.number()\<close> with its checks
  \<^verbatim>\<open>.int()\<close>, \<^verbatim>\<open>.min(m)\<close> and \<^verbatim>\<open>.max(m)\<close>, \<^verbatim>\<open>z.enum([...])\<close>, \<^verbatim>\<open>z.literal(...)\<close>,
  \<^verbatim>\<open>z.array(...)\<close>, \<^verbatim>\<open>z.object({...})\<close>, \<^verbatim>\<open>.optional()\<close> and \<^verbatim>\<open>.default(v)\<close>. The
  \<^verbatim>\<open>.describe(...)\<close> annotations are documentation and are left out.
\<close>

datatype check = IsInt | AtLeast rat | AtMost rat

datatype zod =
    ZString
  | ZNumber "check list"
  | ZEnum "jsstring list"
  | ZLiteral jsstring
  | ZArray zod
  | ZObject "(jsstring \<times> zod) list"
  | ZOptional zod
  | ZDefault zod jsval

text \<open>
  A registered tool: its name, its description, the fields of its input schema in
  the order they are declared, its output schema if it declares one, and its handler.
  A handler takes the argument object and destructures it; the result is \<open>None\<close> when
  the object does not have the type the handler's parameters are declared with.
\<close>

type_synonym arguments = "(jsstring \<times> jsval) list"

record ToolDescriptor =
  tool_name :: jsstring
  description :: jsstring
  inputSchema :: "(jsstring \<times> zod) list"
  outputSchema :: "zod option"
  handler :: "engine \<Rightarrow> world \<Rightarrow> arguments
              \<Rightarrow> ((thrown + CallToolResult) \<times> request list) option"

text \<open>Reading a destructured argument at its declared type.\<close>

definition string_argument :: "arguments \<Rightarrow> jsstring \<Rightarrow> jsstring option" where
  "string_argument args k = (case map_of args k of Some (Str s) \<Rightarrow> Some s | _ \<Rightarrow> None)"

definition number_argument :: "arguments \<Rightarrow> jsstring \<Rightarrow> number option" where
  "number_argument args k = (case map_of args k of Some (Num n) \<Rightarrow> Some n | _ \<Rightarrow> None)"

definition optional_number_argument :: "arguments \<Rightarrow> jsstring \<Rightarrow> number option option" where
  "optional_number_argument args k =
     (case map_of args k of
        None \<Rightarrow> Some None
      | Some Undefined \<Rightarrow> Some None
      | Some (Num n) \<Rightarrow> Some (Some n)
      | _ \<Rightarrow> None)"

definition language_of :: "jsstring \<Rightarrow> language option" where
  "language_of s =
     (if s = ascii ''ko'' then Some Ko else if s = ascii ''en'' then Some En else None)"

definition operator_of :: "jsstring \<Rightarrow> operator option" where
  "operator_of s =
     (if s = ascii ''+'' then Some Plus
      else if s = ascii ''-'' then Some Minus
      else if s = ascii ''*'' then Some Times
      else if s = ascii ''/'' then Some Divide
      else None)"

text \<open>The output schema the first five tools declare, each in the same words.\<close>

definition text_content_schema :: zod where
  "text_content_schema =
     ZObject
       [(ascii ''content'',
         ZArray (ZObject [(ascii ''type'', ZLiteral (ascii ''text'')),
                          (ascii ''text'', ZString)]))]"

definition greet_description :: jsstring where
  "greet_description =
     [0xC774, 0xB984, 0xACFC, 0x0020, 0xC5B8, 0xC5B4, 0xB97C, 0x0020, 0xC785, 0xB825,
      0xD558, 0xBA74, 0x0020, 0xC778, 0xC0AC, 0xB9D0, 0xC744, 0x0020, 0xBC18, 0xD658,
      0xD569, 0xB2C8, 0xB2E4, 0x002E]"

definition calculator_description :: jsstring where
  "calculator_description =
     [0xB450, 0x0020, 0xAC1C, 0xC758, 0x0020, 0xC22B, 0xC790, 0xC640, 0x0020, 0xC5F0,
      0xC0B0, 0xC790, 0xB97C, 0x0020, 0xC785, 0xB825, 0xBC1B, 0xC544, 0x0020, 0xC0AC,
      0xCE59, 0xC5F0, 0xC0B0, 0x0020, 0xACB0, 0xACFC, 0xB97C, 0x0020, 0xBC18, 0xD658,
      0xD569, 0xB2C8, 0xB2E4, 0x002E]"

definition get_time_description :: jsstring where
  "get_time_description =
     [0xC2DC, 0xAC04, 0xB300, 0xB97C, 0x0020, 0xC785, 0xB825, 0xBC1B, 0xC544, 0x0020,
      0xD574, 0xB2F9, 0x0020, 0xC2DC, 0xAC04, 0xB300, 0xC758, 0x0020, 0xD604, 0xC7AC,
      0x0020, 0xC2DC, 0xAC04, 0xC744, 0x0020, 0xBC18, 0xD658, 0xD569, 0xB2C8, 0xB2E4,
      0x002E]"

definition geocode_description :: jsstring where
  "geocode_description =
     [0xB3C4, 0xC2DC, 0x0020, 0xC774, 0xB984, 0xC774, 0xB098, 0x0020, 0xC8FC, 0xC18C,
      0xB97C, 0x0020, 0xC785, 0xB825, 0xBC1B, 0xC544, 0x0020, 0xC704, 0xB3C4, 0xC640,
      0x0020, 0xACBD, 0xB3C4, 0x0020, 0xC88C, 0xD45C, 0xB97C, 0x0020, 0xBC18, 0xD658,
      0xD569, 0xB2C8, 0xB2E4, 0x002E]"

definition get_weather_description :: jsstring where
  "get_weather_description =
     [0xC704, 0xB3C4, 0xC640, 0x0020, 0xACBD, 0xB3C4, 0x0020, 0xC88C, 0xD45C, 0x002C,
      0x0020, 0xC608, 0xBCF4, 0x0020, 0xAE30, 0xAC04, 0xC744, 0x0020, 0xC785, 0xB825,
      0xBC1B, 0xC544, 0x0020, 0xD574, 0xB2F9, 0x0020, 0xC704, 0xCE58, 0xC758, 0x0020,
      0xD604, 0xC7AC, 0x0020, 0xB0A0, 0xC528, 0xC640, 0x0020, 0xC608, 0xBCF4, 0x0020,
      0xC815, 0xBCF4, 0xB97C, 0x0020, 0xC81C, 0xACF5, 0xD569, 0xB2C8, 0xB2E4, 0x002E]"

definition generate_image_description :: jsstring where
  "generate_image_description =
     [0xD14D, 0xC2A4, 0xD2B8, 0x0020, 0xD504, 0xB86C, 0xD504, 0xD2B8, 0xB97C, 0x0020,
      0xC785, 0xB825, 0xBC1B, 0xC544, 0x0020, 0x0041, 0x0049, 0x0020, 0xC774, 0xBBF8,
      0xC9C0, 0xB97C, 0x0020, 0xC0DD, 0xC131, 0xD569, 0xB2C8, 0xB2E4] @
     ascii ''. (FLUX.1-schnell '' @
     [0xBAA8, 0xB378, 0x0020, 0xC0AC, 0xC6A9, 0x0029]"

definition greet_tool :: ToolDescriptor where
  "greet_tool =
     \<lparr>tool_name = ascii ''greet'',
      description = greet_description,
      inputSchema =
        [(ascii ''name'', ZString),
         (ascii ''language'',
          ZDefault (ZOptional (ZEnum [ascii ''ko'', ascii ''en''])) (Str (ascii ''en'')))],
      outputSchema = Some text_content_schema,
      handler = (\<lambda>en w args.
        case (string_argument args (ascii ''name''),
              Option.bind (string_argument args (ascii ''language'')) language_of) of
          (Some name, Some language) \<Rightarrow> Some (greet name language, [])
        | _ \<Rightarrow> None)\<rparr>"

definition calculator_tool :: ToolDescriptor where
  "calculator_tool =
     \<lparr>tool_name = ascii ''calculator'',
      description = calculator_description,
      inputSchema =
        [(ascii ''number1'', ZNumber []),
         (ascii ''number2'', ZNumber []),
         (ascii ''operator'', ZEnum [ascii ''+'', ascii ''-'', ascii ''*'', ascii ''/''])],
      outputSchema = Some text_content_schema,
      handler = (\<lambda>en w args.
        case (number_argument args (ascii ''number1''),
              number_argument args (ascii ''number2''),
              Option.bind (string_argument args (ascii ''operator'')) operator_of) of
          (Some number1, Some number2, Some operator) \<Rightarrow>
            Some (calculator en number1 number2 operator, [])
        | _ \<Rightarrow> None)\<rparr>"

definition get_time_tool :: ToolDescriptor where
  "get_time_tool =
     \<lparr>tool_name = ascii ''get_time'',
      description = get_time_description,
      inputSchema = [(ascii ''timezone'', ZString)],
      outputSchema = Some text_content_schema,
      handler = (\<lambda>en w args.
        case string_argument args (ascii ''timezone'') of
          Some timezone \<Rightarrow> Some (get_time w timezone, [])
        | None \<Rightarrow> None)\<rparr>"

definition geocode_tool :: ToolDescriptor where
  "geocode_tool =
     \<lparr>tool_name = ascii ''geocode'',
      description = geocode_description,
      inputSchema = [(ascii ''query'', ZString)],
      outputSchema = Some text_content_schema,
      handler = (\<lambda>en w args.
        case string_argument args (ascii ''query'') of
          Some query \<Rightarrow> Some (geocode en w query)
        | None \<Rightarrow> None)\<rparr>"

definition get_weather_tool :: ToolDescriptor where
  "get_weather_tool =
     \<lparr>tool_name = ascii ''get_weather'',
      description = get_weather_description,
      inputSchema =
        [(ascii ''latitude'', ZNumber []),
         (ascii ''longitude'', ZNumber []),
         (ascii ''forecast_days'',
          ZDefault (ZOptional (ZNumber [IsInt, AtLeast 1, AtMost 16])) (Num (Fin 7)))],
      outputSchema = Some text_content_schema,
      handler = (\<lambda>en w args.
        case (number_argument args (ascii ''latitude''),
              number_argument args (ascii ''longitude''),
              optional_number_argument args (ascii ''forecast_days'')) of
          (Some latitude, Some longitude, Some forecast_days) \<Rightarrow>
            Some (get_weather en w latitude longitude forecast_days)
        | _ \<Rightarrow> None)\<rparr>"

definition generate_image_tool :: ToolDescriptor where
  "generate_image_tool =
     \<lparr>tool_name = ascii ''generate_image'',
      description = generate_image_description,
      inputSchema = [(ascii ''prompt'', ZString)],
      outputSchema = None,
      handler = (\<lambda>en w args.
        case string_argument args (ascii ''prompt'') of
          Some prompt \<Rightarrow> Some (generate_image en w prompt)
        | None \<Rightarrow> None)\<rparr>"

text \<open>The tools in the order of the \<^verbatim>\<open>registerTool\<close> calls.\<close>

definition registered_tools :: "ToolDescriptor list" where
  "registered_tools =
     [greet_tool, calculator_tool, get_time_tool, geocode_tool, get_weather_tool,
      generate_image_tool]"

section \<open>Validation and dispatch\<close>

text \<open>
  The module hands its schemas and handlers to the server library, which validates
  the arguments of a call and runs the handler. That library is not part of the
  module; the definitions of this section follow the specification of the validator
  and of the dispatcher.
\<close>

text \<open>
  Modelled from the spec: the reasons a validation error gives, and the checks on a
  number. \<^verbatim>\<open>.int()\<close> asks for an integer; a bound is inclusive, and a number that
  breaks one is out of range.
\<close>

datatype reason = Missing | Type_mismatch | Out_of_range

fun check_number :: "check \<Rightarrow> rat \<Rightarrow> reason option" where
  "check_number IsInt r = (if of_int \<lfloor>r\<rfloor> = r then None else Some Type_mismatch)"
| "check_number (AtLeast m) r = (if m \<le> r then None else Some Out_of_range)"
| "check_number (AtMost m) r = (if r \<le> m then None else Some Out_of_range)"

text \<open>
  Modelled from the spec: the Schema Validator of the server library, which is not
  in the module. For one field: an absent value (\<^verbatim>\<open>undefined\<close>) is \<open>Missing\<close> unless the
  field is optional or has a default, and a default is substituted; a present value
  must have the declared type (for an enumeration, be one of its values; for arrays
  and objects, hold in every part); numeric bounds are inclusive, and a number that
  breaks one is \<open>Out_of_range\<close>. Every violation is collected. A JSON number is
  finite.
\<close>

fun validate :: "zod \<Rightarrow> jsval \<Rightarrow> reason list + jsval" where
  "validate ZString v =
     (case v of Str s \<Rightarrow> Inr v | Undefined \<Rightarrow> Inl [Missing] | _ \<Rightarrow> Inl [Type_mismatch])"
| "validate (ZNumber checks) v =
     (case v of
        Num (Fin r) \<Rightarrow>
          (case List.map_filter (\<lambda>c. check_number c r) checks of
             [] \<Rightarrow> Inr v
           | violations \<Rightarrow> Inl violations)
      | Undefined \<Rightarrow> Inl [Missing]
      | _ \<Rightarrow> Inl [Type_mismatch])"
| "validate (ZEnum values) v =
     (case v of
        Str s \<Rightarrow> if s \<in> set values then Inr v else Inl [Type_mismatch]
      | Undefined \<Rightarrow> Inl [Missing]
      | _ \<Rightarrow> Inl [Type_mismatch])"
| "validate (ZLiteral l) v =
     (case v of
        Str s \<Rightarrow> if s = l then Inr v else Inl [Type_mismatch]
      | Undefined \<Rightarrow> Inl [Missing]
      | _ \<Rightarrow> Inl [Type_mismatch])"
| "validate (ZArray z) v =
     (case v of
        Arr xs \<Rightarrow>
          (let rs = map (validate z) xs
           in if list_ex isl rs then Inl (concat (map projl (filter isl rs)))
              else Inr (Arr (map projr rs)))
      | Undefined \<Rightarrow> Inl [Missing]
      | _ \<Rightarrow> Inl [Type_mismatch])"
| "validate (ZObject shape) v =
     (case v of
        Obj kvs \<Rightarrow>
          (let rs = map (\<lambda>(k, z). (k, validate z (case map_of kvs k of
                                                     Some x \<Rightarrow> x | None \<Rightarrow> Undefined)))
                        shape
           in if list_ex (\<lambda>(k, r). isl r) rs
              then Inl (concat (map (\<lambda>(k, r). projl r) (filter (\<lambda>(k, r). isl r) rs)))
              else Inr (Obj (map (\<lambda>(k, r). (k, projr r))
                               (filter (\<lambda>(k, r). projr r \<noteq> Undefined) rs))))
      | Undefined \<Rightarrow> Inl [Missing]
      | _ \<Rightarrow> Inl [Type_mismatch])"
| "validate (ZOptional z) v = (if v = Undefined then Inr Undefined else validate z v)"
| "validate (ZDefault z d) v = (if v = Undefined then Inr d else validate z v)"

text \<open>
  Modelled from the spec: validation of an argument object against an input shape.
  The declared fields are checked in their declared order, each violation is reported
  with its field, fields the shape does not declare are ignored, and on success the
  normalized object holds the declared fields that have a value.
\<close>

fun validate_shape ::
  "(jsstring \<times> zod) list \<Rightarrow> arguments \<Rightarrow> (jsstring \<times> reason) list + arguments" where
  "validate_shape [] args = Inr []"
| "validate_shape ((k, z) # shape) args =
     (case (validate z (case map_of args k of Some x \<Rightarrow> x | None \<Rightarrow> Undefined),
            validate_shape shape args) of
        (Inl rs, Inl violations) \<Rightarrow> Inl (map (Pair k) rs @ violations)
      | (Inl rs, Inr normalized) \<Rightarrow> Inl (map (Pair k) rs)
      | (Inr v, Inl violations) \<Rightarrow> Inl violations
      | (Inr v, Inr normalized) \<Rightarrow>
          Inr (if v = Undefined then normalized else (k, v) # normalized))"

text \<open>
  Modelled from the spec: the Dispatcher and the envelopes, which are the server
  library's. A call names a tool and gives an argument object. An unknown name, a
  validation failure and a handler that throws each become an error envelope; the
  message of an execution error is the message of the error the handler threw. The
  handler runs only on arguments that passed validation.
\<close>

datatype failure =
    NotFoundError jsstring
  | ValidationError "(jsstring \<times> reason) list"
  | ExecutionError jsstring

datatype reply = ResponseEnvelope CallToolResult | ErrorEnvelope failure

definition call_tool ::
  "ToolDescriptor list \<Rightarrow> engine \<Rightarrow> world \<Rightarrow> jsstring \<Rightarrow> arguments
     \<Rightarrow> reply \<times> request list" where
  "call_tool tools en w target arguments =
     (case find (\<lambda>d. tool_name d = target) tools of
        None \<Rightarrow> (ErrorEnvelope (NotFoundError target), [])
      | Some d \<Rightarrow>
          (case validate_shape (inputSchema d) arguments of
             Inl violations \<Rightarrow> (ErrorEnvelope (ValidationError violations), [])
           | Inr normalized \<Rightarrow>
               (case handler d en w normalized of
                  None \<Rightarrow> (ErrorEnvelope (ValidationError []), [])
                | Some (Inl (Error message), requests) \<Rightarrow>
                    (ErrorEnvelope (ExecutionError message), requests)
                | Some (Inl NonError, requests) \<Rightarrow>
                    (ErrorEnvelope (ExecutionError []), requests)
                | Some (Inr result, requests) \<Rightarrow>
                    (ResponseEnvelope result, requests))))"

section \<open>The server-info resource\<close>

text \<open>
  The handler of the resource \<^verbatim>\<open>mcp://server-info\<close> builds an object from three array
  literals, \<^verbatim>\<open>tools\<close>, \<^verbatim>\<open>prompts\<close> and \<^verbatim>\<open>resources\<close>, and returns its JSON text.
  The descriptions in the arrays are the same strings as in the registrations.
  The titles read "code review" and "server information"; the description of the
  server reads "MCP server - provides various utility tools, resources and prompts".
\<close>

definition code_review_title :: jsstring where
  "code_review_title =
     [0xCF54, 0xB4DC, 0x0020, 0xB9AC, 0xBDF0]"

definition code_review_description :: jsstring where
  "code_review_description =
     [0xCF54, 0xB4DC, 0xB97C, 0x0020, 0xC785, 0xB825, 0xBC1B, 0xC544, 0x0020, 0xCF54,
      0xB4DC, 0x0020, 0xB9AC, 0xBDF0, 0xB97C, 0x0020, 0xC704, 0xD55C, 0x0020, 0xD504,
      0xB86C, 0xD504, 0xD2B8, 0xB97C, 0x0020, 0xC0DD, 0xC131, 0xD569, 0xB2C8, 0xB2E4,
      0x002E]"

definition server_info_title :: jsstring where
  "server_info_title =
     [0xC11C, 0xBC84, 0x0020, 0xC815, 0xBCF4]"

definition server_info_description :: jsstring where
  "server_info_description =
     [0xD604, 0xC7AC, 0x0020, 0x004D, 0x0043, 0x0050, 0x0020, 0xC11C, 0xBC84, 0xC758,
      0x0020, 0xC815, 0xBCF4, 0xC640, 0x0020, 0xC0AC, 0xC6A9, 0x0020, 0xAC00, 0xB2A5,
      0xD55C, 0x0020, 0xB3C4, 0xAD6C, 0x002C, 0x0020, 0xB9AC, 0xC18C, 0xC2A4, 0x002C,
      0x0020, 0xD504, 0xB86C, 0xD504, 0xD2B8, 0x0020, 0xBAA9, 0xB85D]"

definition server_description :: jsstring where
  "server_description =
     [0x004D, 0x0043, 0x0050, 0x0020, 0xC11C, 0xBC84, 0x0020, 0x002D, 0x0020, 0xB2E4,
      0xC591, 0xD55C, 0x0020, 0xC720, 0xD2F8, 0xB9AC, 0xD2F0, 0x0020, 0xB3C4, 0xAD6C,
      0x002C, 0x0020, 0xB9AC, 0xC18C, 0xC2A4, 0x002C, 0x0020, 0xD504, 0xB86C, 0xD504,
      0xD2B8, 0x0020, 0xC81C, 0xACF5]"

definition server_info_tools :: "jsval list" where
  "server_info_tools =
     [Obj
        [(ascii ''name'', Str (ascii ''greet'')),
         (ascii ''description'', Str greet_description),
         (ascii ''parameters'', Obj
           [(ascii ''name'', Str (ascii ''string'')),
            (ascii ''language'', Str ([0x0065, 0x006E, 0x0075, 0x006D, 0x005B, 0x0022, 0x006B, 0x006F, 0x0022, 0x002C,
                   0x0020, 0x0022, 0x0065, 0x006E, 0x0022] @
                  ascii ''] (optional, default: '' @
                  [0x0022, 0x0065, 0x006E, 0x0022, 0x0029]))])],
       Obj
        [(ascii ''name'', Str (ascii ''calculator'')),
         (ascii ''description'', Str calculator_description),
         (ascii ''parameters'', Obj
           [(ascii ''number1'', Str (ascii ''number'')),
            (ascii ''number2'', Str (ascii ''number'')),
            (ascii ''operator'', Str ([0x0065, 0x006E, 0x0075, 0x006D, 0x005B, 0x0022, 0x002B, 0x0022, 0x002C, 0x0020,
                   0x0022, 0x002D, 0x0022, 0x002C, 0x0020, 0x0022, 0x002A, 0x0022, 0x002C, 0x0020,
                   0x0022, 0x002F, 0x0022, 0x005D]))])],
       Obj
        [(ascii ''name'', Str (ascii ''get_time'')),
         (ascii ''description'', Str get_time_description),
         (ascii ''parameters'', Obj
           [(ascii ''timezone'', Str (ascii ''string (IANA timezone '' @
                  [0xD615, 0xC2DD, 0x0029]))])],
       Obj
        [(ascii ''name'', Str (ascii ''geocode'')),
         (ascii ''description'', Str geocode_description),
         (ascii ''parameters'', Obj
           [(ascii ''query'', Str (ascii ''string ('' @
                  [0xB3C4, 0xC2DC, 0x0020, 0xC774, 0xB984, 0xC774, 0xB098, 0x0020, 0xC8FC, 0xC18C,
                   0x0029]))])],
       Obj
        [(ascii ''name'', Str (ascii ''get_weather'')),
         (ascii ''description'', Str get_weather_description),
         (ascii ''parameters'', Obj
           [(ascii ''latitude'', Str (ascii ''number (WGS84 '' @
                  [0xC88C, 0xD45C, 0xACC4, 0x0029])),
            (ascii ''longitude'', Str (ascii ''number (WGS84 '' @
                  [0xC88C, 0xD45C, 0xACC4, 0x0029])),
            (ascii ''forecast_days'', Str (ascii ''number (1-16, optional, default: 7)''))])],
       Obj
        [(ascii ''name'', Str (ascii ''generate_image'')),
         (ascii ''description'', Str generate_image_description),
         (ascii ''parameters'', Obj
           [(ascii ''prompt'', Str (ascii ''string ('' @
                  [0xC0DD, 0xC131, 0xD560, 0x0020, 0xC774, 0xBBF8, 0xC9C0, 0xC5D0, 0x0020, 0xB300,
                   0xD55C, 0x0020, 0xC124, 0xBA85, 0x0029]))]),
         (ascii ''output'', Str (ascii ''base64 '' @
               [0xC778, 0xCF54, 0xB529, 0xB41C, 0x0020, 0xC774, 0xBBF8, 0xC9C0] @
               ascii '' (image/png)''))]]"

definition server_info_prompts :: "jsval list" where
  "server_info_prompts =
     [Obj
        [(ascii ''name'', Str (ascii ''code-review'')),
         (ascii ''title'', Str code_review_title),
         (ascii ''description'', Str code_review_description),
         (ascii ''parameters'', Obj
           [(ascii ''code'', Str (ascii ''string ('' @
                  [0xB9AC, 0xBDF0, 0xD560, 0x0020, 0xCF54, 0xB4DC, 0x0029])),
            (ascii ''language'', Str (ascii ''string (optional, '' @
                  [0xD504, 0xB85C, 0xADF8, 0xB798, 0xBC0D, 0x0020, 0xC5B8, 0xC5B4, 0x0029])),
            (ascii ''focus'', Str ([0x0065, 0x006E, 0x0075, 0x006D, 0x005B, 0x0022] @
                  ascii ''performance'' @
                  [0x0022, 0x002C, 0x0020, 0x0022] @
                  ascii ''security'' @
                  [0x0022, 0x002C, 0x0020, 0x0022] @
                  ascii ''best-practices'' @
                  [0x0022, 0x002C, 0x0020, 0x0022] @
                  ascii ''readability'' @
                  [0x0022, 0x002C, 0x0020, 0x0022, 0x0061, 0x006C, 0x006C, 0x0022] @
                  ascii ''] (optional, default: '' @
                  [0x0022, 0x0061, 0x006C, 0x006C, 0x0022, 0x0029]))])]]"

definition server_info_resources :: "jsval list" where
  "server_info_resources =
     [Obj
        [(ascii ''name'', Str (ascii ''server-info'')),
         (ascii ''uri'', Str (ascii ''mcp://server-info'')),
         (ascii ''title'', Str server_info_title),
         (ascii ''description'', Str server_info_description),
         (ascii ''mimeType'', Str (ascii ''application/json''))]]"

text \<open>
  \<^verbatim>\<open>Math.floor\<close> and the remainder \<^verbatim>\<open>%\<close>, whose result has the sign of the dividend
  and is exact.
\<close>

fun Math_floor :: "number \<Rightarrow> number" where
  "Math_floor (Fin a) = Fin (of_int \<lfloor>a\<rfloor>)"
| "Math_floor x = x"

fun js_rem :: "number \<Rightarrow> number \<Rightarrow> number" where
  "js_rem (Fin a) (Fin b) =
     (if b = 0 then NaN
      else Fin (a - b * of_int (if 0 \<le> a / b then \<lfloor>a / b\<rfloor> else \<lceil>a / b\<rceil>)))"
| "js_rem (Fin a) PosInfinity = Fin a"
| "js_rem (Fin a) NegInfinity = Fin a"
| "js_rem x y = NaN"

text \<open>The uptime as "\<open>hours\<close> hours \<open>minutes\<close> minutes \<open>seconds\<close> seconds".\<close>

definition uptimeFormatted :: "jsstring \<Rightarrow> jsstring \<Rightarrow> jsstring \<Rightarrow> jsstring" where
  "uptimeFormatted hours minutes seconds =
     hours @
     [0xC2DC, 0xAC04, 0x0020] @
     minutes @
     [0xBD84, 0x0020] @
     seconds @
     [0xCD08]"

text \<open>
  The object \<^verbatim>\<open>serverInfo\<close>. \<^verbatim>\<open>process.uptime()\<close> is called four times; \<open>process_uptime w k\<close>
  is what call number \<open>k\<close> returns.
\<close>

definition serverInfo :: "engine \<Rightarrow> world \<Rightarrow> jsval" where
  "serverInfo en w =
     (let tools = server_info_tools;
          prompts = server_info_prompts;
          resources = server_info_resources
      in Obj
        [(ascii ''server'',
          Obj [(ascii ''name'', Str (ascii ''my_mcp_server'')),
               (ascii ''version'', Str (ascii ''1.0.0'')),
               (ascii ''description'', Str server_description)]),
         (ascii ''capabilities'',
          Obj [(ascii ''tools'',
                Obj [(ascii ''count'', Num (Fin (of_nat (length tools)))),
                     (ascii ''list'', Arr tools)]),
               (ascii ''prompts'',
                Obj [(ascii ''count'', Num (Fin (of_nat (length prompts)))),
                     (ascii ''list'', Arr prompts)]),
               (ascii ''resources'',
                Obj [(ascii ''count'', Num (Fin (of_nat (length resources)))),
                     (ascii ''list'', Arr resources)])]),
         (ascii ''system'',
          Obj [(ascii ''nodeVersion'', Str (process_version w)),
               (ascii ''platform'', Str (process_platform w)),
               (ascii ''architecture'', Str (process_arch w))]),
         (ascii ''runtime'',
          Obj [(ascii ''timestamp'', Str (toISOString en (now w))),
               (ascii ''uptime'', Num (process_uptime w 0)),
               (ascii ''uptimeFormatted'',
                Str (uptimeFormatted
                  (number_to_string en
                     (Math_floor (js_div en (process_uptime w 1) (Fin 3600))))
                  (number_to_string en
                     (Math_floor (js_div en (js_rem (process_uptime w 2) (Fin 3600)) (Fin 60))))
                  (number_to_string en
                     (Math_floor (js_rem (process_uptime w 3) (Fin 60))))))])])"

record ResourceContents =
  uri :: jsstring
  mimeType :: jsstring
  text' :: jsstring

definition server_info :: "engine \<Rightarrow> world \<Rightarrow> ResourceContents list" where
  "server_info en w =
     [\<lparr>uri = ascii ''mcp://server-info'',
       mimeType = ascii ''application/json'',
       text' = JSON_stringify en (serverInfo en w)\<rparr>]"

text \<open>
  Reading the document: the \<^verbatim>\<open>count\<close> and the \<^verbatim>\<open>list\<close> of one section of
  \<^verbatim>\<open>capabilities\<close>, and the \<^verbatim>\<open>name\<close> of an entry of a list.
\<close>

definition capability :: "engine \<Rightarrow> jsval \<Rightarrow> jsstring \<Rightarrow> thrown + jsval \<times> jsval" where
  "capability en document kind =
     and_then (get_prop en document (ascii ''capabilities'')) (\<lambda>capabilities.
     and_then (get_prop en capabilities kind) (\<lambda>part.
     and_then (get_prop en part (ascii ''count'')) (\<lambda>count.
     and_then (get_prop en part (ascii ''list'')) (\<lambda>entries.
       Inr (count, entries)))))"

definition entry_name :: "engine \<Rightarrow> jsval \<Rightarrow> thrown + jsval" where
  "entry_name en entry = get_prop en entry (ascii ''name'')"

section \<open>The code-review prompt\<close>

text \<open>
  The template asks, in Korean, for a review of the code under five headings
  (quality and readability, performance, security, best practices, bugs), quotes the
  code in a fenced block tagged with the language, and asks for the review in four
  parts. The language tag is \<^verbatim>\<open>language || 'text'\<close>. The instruction appended for a
  focus other than \<^verbatim>\<open>all\<close> asks to concentrate on that area. The schema gives
  \<^verbatim>\<open>focus\<close> one of five values, and the handler's parameter has the default
  \<^verbatim>\<open>'all'\<close>; \<open>None\<close> is a call without that argument.
\<close>

definition reviewTemplate :: "jsstring \<Rightarrow> jsstring \<Rightarrow> jsstring" where
  "reviewTemplate lang code =
     [0xB2E4, 0xC74C, 0x0020, 0xCF54, 0xB4DC, 0xB97C, 0x0020, 0xB9AC, 0xBDF0, 0xD574,
        0xC8FC, 0xC138, 0xC694, 0x002E, 0x0020, 0xB2E4, 0xC74C, 0x0020, 0xD56D, 0xBAA9,
        0xB4E4, 0xC744, 0x0020, 0xC911, 0xC810, 0xC801, 0xC73C, 0xB85C, 0x0020, 0xAC80,
        0xD1A0, 0xD574, 0xC8FC, 0xC138, 0xC694, 0x003A, 0x000A, 0x000A, 0x0023, 0x0023,
        0x0020, 0xB9AC, 0xBDF0, 0x0020, 0xD3EC, 0xC778, 0xD2B8, 0x000A, 0x000A] @
       ascii ''### 1. '' @
       [0xCF54, 0xB4DC, 0x0020, 0xD488, 0xC9C8, 0x0020, 0xBC0F, 0x0020, 0xAC00, 0xB3C5,
        0xC131, 0x000A, 0x002D, 0x0020, 0xCF54, 0xB4DC, 0xC758, 0x0020, 0xAC00, 0xB3C5,
        0xC131, 0xACFC, 0x0020, 0xBA85, 0xD655, 0xC131, 0x000A, 0x002D, 0x0020, 0xB124,
        0xC774, 0xBC0D, 0x0020, 0xCEE8, 0xBCA4, 0xC158, 0x0020, 0xC900, 0xC218, 0x0020,
        0xC5EC, 0xBD80, 0x000A, 0x002D, 0x0020, 0xC8FC, 0xC11D, 0x0020, 0xBC0F, 0x0020,
        0xBB38, 0xC11C, 0xD654, 0x000A, 0x002D, 0x0020, 0xCF54, 0xB4DC, 0x0020, 0xAD6C,
        0xC870, 0x0020, 0xBC0F, 0x0020, 0xC870, 0xC9C1, 0x000A, 0x000A] @
       ascii ''### 2. '' @
       [0xC131, 0xB2A5, 0x0020, 0xBC0F, 0x0020, 0xCD5C, 0xC801, 0xD654, 0x000A, 0x002D,
        0x0020, 0xC54C, 0xACE0, 0xB9AC, 0xC998, 0x0020, 0xD6A8, 0xC728, 0xC131, 0x000A,
        0x002D, 0x0020, 0xBD88, 0xD544, 0xC694, 0xD55C, 0x0020, 0xC5F0, 0xC0B0, 0xC774,
        0xB098, 0x0020, 0xC911, 0xBCF5, 0x0020, 0xCF54, 0xB4DC, 0x000A, 0x002D, 0x0020,
        0xBA54, 0xBAA8, 0xB9AC, 0x0020, 0xC0AC, 0xC6A9, 0x0020, 0xCD5C, 0xC801, 0xD654,
        0x000A, 0x002D, 0x0020, 0xBE44, 0xB3D9, 0xAE30, 0x0020, 0xCC98, 0xB9AC, 0x0020,
        0xC801, 0xC808, 0xC131, 0x000A, 0x000A] @
       ascii ''### 3. '' @
       [0xBCF4, 0xC548, 0x000A, 0x002D, 0x0020, 0xC785, 0xB825, 0xAC12, 0x0020, 0xAC80,
        0xC99D, 0x0020, 0xBC0F] @
       ascii '' sanitization'' @
       [0x000A, 0x002D, 0x0020, 0xBCF4, 0xC548, 0x0020, 0xCDE8, 0xC57D, 0xC810] @
       ascii '' (SQL injection, XSS '' @
       [0xB4F1, 0x0029, 0x000A, 0x002D, 0x0020, 0xC778, 0xC99D, 0x0020, 0xBC0F, 0x0020,
        0xAD8C, 0xD55C, 0x0020, 0xAD00, 0xB9AC, 0x000A, 0x002D, 0x0020, 0xBBFC, 0xAC10,
        0x0020, 0xC815, 0xBCF4, 0x0020, 0xCC98, 0xB9AC, 0x000A, 0x000A] @
       ascii ''### 4. '' @
       [0xBAA8, 0xBC94, 0x0020, 0xC0AC, 0xB840, 0x000A, 0x002D, 0x0020, 0xC5B8, 0xC5B4,
        0xBCC4, 0x0020, 0xBAA8, 0xBC94, 0x0020, 0xC0AC, 0xB840, 0x0020, 0xC900, 0xC218,
        0x000A, 0x002D, 0x0020, 0xB514, 0xC790, 0xC778, 0x0020, 0xD328, 0xD134, 0x0020,
        0xC801, 0xC6A9, 0x000A, 0x002D, 0x0020, 0xC5D0, 0xB7EC, 0x0020, 0xCC98, 0xB9AC,
        0x000A, 0x002D, 0x0020, 0xD14C, 0xC2A4, 0xD2B8, 0x0020, 0xAC00, 0xB2A5, 0xC131,
        0x000A, 0x000A] @
       ascii ''### 5. '' @
       [0xBC84, 0xADF8, 0x0020, 0xBC0F, 0x0020, 0xC7A0, 0xC7AC, 0xC801, 0x0020, 0xBB38,
        0xC81C, 0x000A, 0x002D, 0x0020, 0xB17C, 0xB9AC, 0xC801, 0x0020, 0xC624, 0xB958,
        0x000A, 0x002D, 0x0020, 0xC5E3, 0xC9C0, 0x0020, 0xCF00, 0xC774, 0xC2A4, 0x0020,
        0xCC98, 0xB9AC, 0x000A, 0x002D, 0x0020, 0xD0C0, 0xC785, 0x0020, 0xC548, 0xC815,
        0xC131, 0x000A, 0x002D, 0x0020, 0xACBD, 0xC7C1, 0x0020, 0xC870, 0xAC74, 0x0020,
        0xBC0F, 0x0020, 0xB3D9, 0xC2DC, 0xC131, 0x0020, 0xBB38, 0xC81C, 0x000A, 0x000A,
        0x0023, 0x0023, 0x0020, 0xB9AC, 0xBDF0, 0xD560, 0x0020, 0xCF54, 0xB4DC, 0x000A,
        0x000A, 0x0060, 0x0060, 0x0060] @
     lang @
     [0x000A] @
     code @
     [0x000A, 0x0060, 0x0060, 0x0060, 0x000A, 0x000A, 0x0023, 0x0023, 0x0020, 0xB9AC,
        0xBDF0, 0x0020, 0xD615, 0xC2DD, 0x000A, 0x000A, 0xB2E4, 0xC74C, 0x0020, 0xD615,
        0xC2DD, 0xC73C, 0xB85C, 0x0020, 0xB9AC, 0xBDF0, 0xB97C, 0x0020, 0xC81C, 0xACF5,
        0xD574, 0xC8FC, 0xC138, 0xC694, 0x003A, 0x000A, 0x000A, 0x0023, 0x0023, 0x0023,
        0x0020, 0x2705, 0x0020, 0xC798, 0xB41C, 0x0020, 0xC810, 0x000A, 0x002D, 0x0020,
        0xAD6C, 0xCCB4, 0xC801, 0xC778, 0x0020, 0xCE6D, 0xCC2C, 0x0020, 0xD3EC, 0xC778,
        0xD2B8, 0x000A, 0x000A, 0x0023, 0x0023, 0x0023, 0x0020, 0x26A0, 0xFE0F, 0x0020,
        0xAC1C, 0xC120, 0xC774, 0x0020, 0xD544, 0xC694, 0xD55C, 0x0020, 0xC810, 0x000A,
        0x002D, 0x0020, 0xAD6C, 0xCCB4, 0xC801, 0xC778, 0x0020, 0xAC1C, 0xC120, 0x0020,
        0xC0AC, 0xD56D, 0xACFC, 0x0020, 0xC774, 0xC720, 0x000A, 0x000A, 0x0023, 0x0023,
        0x0023, 0x0020, 0xD83D, 0xDD27, 0x0020, 0xC81C, 0xC548, 0x0020, 0xC0AC, 0xD56D,
        0x000A, 0x002D, 0x0020, 0xAD6C, 0xCCB4, 0xC801, 0xC778, 0x0020, 0xAC1C, 0xC120,
        0x0020, 0xCF54, 0xB4DC, 0x0020, 0xC608, 0xC2DC, 0x0020, 0x0028, 0xAC00, 0xB2A5,
        0xD55C, 0x0020, 0xACBD, 0xC6B0, 0x0029, 0x000A, 0x000A, 0x0023, 0x0023, 0x0023,
        0x0020, 0xD83D, 0xDCDD, 0x0020, 0xCD94, 0xAC00, 0x0020, 0xACE0, 0xB824, 0xC0AC,
        0xD56D, 0x000A, 0x002D, 0x0020, 0xCD94, 0xAC00, 0xB85C, 0x0020, 0xACE0, 0xB824,
        0xD574, 0xC57C, 0x0020, 0xD560, 0x0020, 0xC0AC, 0xD56D, 0xB4E4]"

definition focus_performance :: jsstring where
  "focus_performance =
     [0x000A, 0x000A, 0x002A, 0x002A, 0xD2B9, 0xBCC4, 0xD788, 0x0020, 0xC131, 0xB2A5,
      0x0020, 0xCD5C, 0xC801, 0xD654, 0xC5D0, 0x0020, 0xC9D1, 0xC911, 0xD574, 0xC11C,
      0x0020, 0xB9AC, 0xBDF0, 0xD574, 0xC8FC, 0xC138, 0xC694, 0x002E, 0x002A, 0x002A]"

definition focus_security :: jsstring where
  "focus_security =
     [0x000A, 0x000A, 0x002A, 0x002A, 0xD2B9, 0xBCC4, 0xD788, 0x0020, 0xBCF4, 0xC548,
      0x0020, 0xCDE8, 0xC57D, 0xC810, 0xACFC, 0x0020, 0xBCF4, 0xC548, 0x0020, 0xBAA8,
      0xBC94, 0x0020, 0xC0AC, 0xB840, 0xC5D0, 0x0020, 0xC9D1, 0xC911, 0xD574, 0xC11C,
      0x0020, 0xB9AC, 0xBDF0, 0xD574, 0xC8FC, 0xC138, 0xC694, 0x002E, 0x002A, 0x002A]"

definition focus_best_practices :: jsstring where
  "focus_best_practices =
     [0x000A, 0x000A, 0x002A, 0x002A, 0xD2B9, 0xBCC4, 0xD788, 0x0020, 0xD574, 0xB2F9,
      0x0020, 0xC5B8, 0xC5B4, 0xC758, 0x0020, 0xBAA8, 0xBC94, 0x0020, 0xC0AC, 0xB840,
      0xC640, 0x0020, 0xB514, 0xC790, 0xC778, 0x0020, 0xD328, 0xD134, 0x0020, 0xC900,
      0xC218, 0xC5D0, 0x0020, 0xC9D1, 0xC911, 0xD574, 0xC11C, 0x0020, 0xB9AC, 0xBDF0,
      0xD574, 0xC8FC, 0xC138, 0xC694, 0x002E, 0x002A, 0x002A]"

definition focus_readability :: jsstring where
  "focus_readability =
     [0x000A, 0x000A, 0x002A, 0x002A, 0xD2B9, 0xBCC4, 0xD788, 0x0020, 0xCF54, 0xB4DC,
      0x0020, 0xAC00, 0xB3C5, 0xC131, 0x002C, 0x0020, 0xB124, 0xC774, 0xBC0D, 0x002C,
      0x0020, 0xAD6C, 0xC870, 0xC5D0, 0x0020, 0xC9D1, 0xC911, 0xD574, 0xC11C, 0x0020,
      0xB9AC, 0xBDF0, 0xD574, 0xC8FC, 0xC138, 0xC694, 0x002E, 0x002A, 0x002A]"

datatype focus = Performance | Security | BestPractices | Readability | AllAreas

fun focusInstructions :: "focus \<Rightarrow> jsstring" where
  "focusInstructions Performance = focus_performance"
| "focusInstructions Security = focus_security"
| "focusInstructions BestPractices = focus_best_practices"
| "focusInstructions Readability = focus_readability"
| "focusInstructions AllAreas = []"

record PromptMessage =
  role :: jsstring
  message_content :: ContentBlock

definition code_review ::
  "jsstring \<Rightarrow> jsstring option \<Rightarrow> focus option \<Rightarrow> PromptMessage list" where
  "code_review code language focus_argument =
     (let focus = (case focus_argument of None \<Rightarrow> AllAreas | Some f \<Rightarrow> f);
          tag = (case language of
                   None \<Rightarrow> ascii ''text''
                 | Some l \<Rightarrow> if l \<noteq> [] then l else ascii ''text'');
          finalPrompt = reviewTemplate tag code @ focusInstructions focus
      in [\<lparr>role = ascii ''user'', message_content = Text finalPrompt\<rparr>])"

text \<open>
  The registered prompt: its name, its arguments' schema and its handler, which
  destructures the argument object as a tool's handler does.
\<close>

record PromptDescriptor =
  prompt_name :: jsstring
  prompt_title :: jsstring
  prompt_description :: jsstring
  argsSchema :: "(jsstring \<times> zod) list"
  prompt_handler :: "engine \<Rightarrow> world \<Rightarrow> arguments \<Rightarrow> PromptMessage list option"

definition focus_of :: "jsstring \<Rightarrow> focus option" where
  "focus_of s =
     (if s = ascii ''performance'' then Some Performance
      else if s = ascii ''security'' then Some Security
      else if s = ascii ''best-practices'' then Some BestPractices
      else if s = ascii ''readability'' then Some Readability
      else if s = ascii ''all'' then Some AllAreas
      else None)"

definition optional_string_argument :: "arguments \<Rightarrow> jsstring \<Rightarrow> jsstring option option" where
  "optional_string_argument args k =
     (case map_of args k of
        None \<Rightarrow> Some None
      | Some Undefined \<Rightarrow> Some None
      | Some (Str s) \<Rightarrow> Some (Some s)
      | _ \<Rightarrow> None)"

definition code_review_prompt :: PromptDescriptor where
  "code_review_prompt =
     \<lparr>prompt_name = ascii ''code-review'',
      prompt_title = code_review_title,
      prompt_description = code_review_description,
      argsSchema =
        [(ascii ''code'', ZString),
         (ascii ''language'', ZOptional ZString),
         (ascii ''focus'',
          ZDefault
            (ZOptional
               (ZEnum [ascii ''performance'', ascii ''security'', ascii ''best-practices'',
                       ascii ''readability'', ascii ''all'']))
            (Str (ascii ''all'')))],
      prompt_handler = (\<lambda>en w args.
        case (string_argument args (ascii ''code''),
              optional_string_argument args (ascii ''language''),
              optional_string_argument args (ascii ''focus'')) of
          (Some code, Some language, Some None) \<Rightarrow> Some (code_review code language None)
        | (Some code, Some language, Some (Some f)) \<Rightarrow>
            (case focus_of f of
               Some focus \<Rightarrow> Some (code_review code language (Some focus))
             | None \<Rightarrow> None)
        | _ \<Rightarrow> None)\<rparr>"

section \<open>An engine and a world for examples\<close>

text \<open>
  The examples below run the definitions on one engine and one world. The engine
  rounds nothing, knows the decimal \<^verbatim>\<open>37.5\<close> and prints every other number that is not a
  safe integer as \<^verbatim>\<open>0.5\<close>, parses the strings \<^verbatim>\<open>37.5\<close> and \<^verbatim>\<open>127\<close> and every other
  string as NaN, converts every object to \<^verbatim>\<open>[object Object]\<close> and prints a date string
  as it is. In the world no token is set, the only time zone is \<^verbatim>\<open>UTC\<close>, the network
  is down and the inference service answers with three bytes.
\<close>

definition example_engine :: engine where
  "example_engine =
     \<lparr>round_to_double = Fin,
      divide_by_zero = (\<lambda>x. signed_infinity (sign_of x)),
      decimal_string = (\<lambda>r. if r = 75 / 2 then ascii ''37.5'' else ascii ''0.5''),
      parseFloat =
        (\<lambda>s. if s = ascii ''37.5'' then Fin (75 / 2)
             else if s = ascii ''127'' then Fin 127
             else NaN),
      string_to_number = (\<lambda>s. NaN),
      object_to_string = (\<lambda>v. Inr (ascii ''[object Object]'')),
      type_error_message = (\<lambda>v k. ascii ''Cannot read properties''),
      object_prototype = (\<lambda>k. None),
      url_search_params =
        (\<lambda>ps. concat (map (\<lambda>(k, v). k @ ascii ''='' @ v @ ascii ''&'') ps)),
      to_locale_date_string =
        (\<lambda>v. case v of Str s \<Rightarrow> Inr s | _ \<Rightarrow> Inr (ascii ''Invalid Date'')),
      toISOString = (\<lambda>t. ascii ''1970-01-01T00:00:00.000Z''),
      base64 = (\<lambda>bytes. ascii ''AAAA''),
      JSON_stringify = (\<lambda>v. ascii ''{}'')\<rparr>"

definition example_world :: world where
  "example_world =
     \<lparr>process_env_HF_TOKEN = None,
      huggingface_token_file = Inl (Error (ascii ''ENOENT'')),
      now = 0,
      Intl_DateTimeFormat =
        (\<lambda>timezone.
           if timezone = ascii ''UTC''
           then Inr (\<lambda>t. ascii ''1970. 01. 01. 00:00:00'')
           else Inl (Error (ascii ''Invalid time zone specified: '' @ timezone))),
      fetch = (\<lambda>url headers. Inl (Error (ascii ''fetch failed''))),
      textToImage = (\<lambda>token model prompt. Inr [0, 0, 0]),
      process_version = ascii ''v20.0.0'',
      process_platform = ascii ''linux'',
      process_arch = ascii ''x64'',
      process_uptime = (\<lambda>k. Fin 3725)\<rparr>"

text \<open>
  Two replies a web service can give: a place found by the geocoder, and a three-day
  weather report.
\<close>

definition example_place :: jsval where
  "example_place =
     Obj [(ascii ''lat'', Str (ascii ''37.5'')),
          (ascii ''lon'', Str (ascii ''127'')),
          (ascii ''display_name'', Str (ascii ''Seoul''))]"

definition example_daily :: "(jsstring \<times> jsval) list" where
  "example_daily =
     [(ascii ''time'',
       Arr [Str (ascii ''2024-05-01''), Str (ascii ''2024-05-02''),
            Str (ascii ''2024-05-03'')]),
      (ascii ''temperature_2m_max'', Arr [Num (Fin 22), Num (Fin 23), Num (Fin 24)]),
      (ascii ''temperature_2m_min'', Arr [Num (Fin 11), Num (Fin 12), Num (Fin 13)]),
      (ascii ''precipitation_sum'', Arr [Num (Fin 0), Num (Fin 2), Num (Fin 0)]),
      (ascii ''weathercode'', Arr [Num (Fin 0), Num (Fin 61), Num (Fin 3)])]"

definition example_weather :: jsval where
  "example_weather =
     Obj [(ascii ''current_weather'',
           Obj [(ascii ''temperature'', Num (Fin 21)),
                (ascii ''weathercode'', Num (Fin 3)),
                (ascii ''windspeed'', Num (Fin 7))]),
          (ascii ''daily'', Obj example_daily)]"

definition answering :: "jsval \<Rightarrow> world" where
  "answering data =
     example_world
       \<lparr>fetch := (\<lambda>url headers.
          Inr \<lparr>ok = True, status = 200, statusText = ascii ''OK'', json = Inr data\<rparr>)\<rparr>"

text \<open>A web service that is down: every request is answered with the status 503.\<close>

definition unavailable :: world where
  "unavailable =
     example_world
       \<lparr>fetch := (\<lambda>url headers.
          Inr \<lparr>ok = False, status = 503, statusText = ascii ''Service Unavailable'',
               json = Inl (Error (ascii ''Unexpected end of JSON input''))\<rparr>)\<rparr>"

text \<open>
  The report get_weather builds from the weather reply above for latitude 37 and
  longitude 127: the current weather (code 3, "overcast"), the heading for a forecast
  of \<open>n\<close> days of which \<open>shown\<close> are shown, and the first \<open>shown\<close> of three blocks, one
  for each day, with the descriptions of the codes 0 ("clear"), 61 ("light rain") and
  3 and a precipitation line for the second day only.
\<close>

definition example_blocks :: "jsstring list" where
  "example_blocks =
     [weather_text_date (ascii ''2024-05-01'') @
      weather_text_high_low (ascii ''22'') (ascii ''11'') @
      weather_text_weather [0xB9D1, 0xC74C],
      weather_text_date (ascii ''2024-05-02'') @
      weather_text_high_low (ascii ''23'') (ascii ''12'') @
      weather_text_weather [0xC57D, 0xD55C, 0x0020, 0xBE44] @
      weather_text_precipitation (ascii ''2''),
      weather_text_date (ascii ''2024-05-03'') @
      weather_text_high_low (ascii ''24'') (ascii ''13'') @
      weather_text_weather [0xD750, 0xB9BC]]"

definition example_report :: "nat \<Rightarrow> nat \<Rightarrow> jsstring" where
  "example_report n shown =
     (weather_text_location (ascii ''37'') (ascii ''127'') @
      weather_text_current @
      weather_text_temperature (ascii ''21'') @
      weather_text_weather [0xD750, 0xB9BC] @
      weather_text_wind (ascii ''7'')) @
     weather_text_forecast (digits n) (digits shown) @
     concat (take shown example_blocks)"

section \<open>Properties\<close>

subsection \<open>Numbers and their strings\<close>

lemma digits_small: "n < 10 \<Longrightarrow> digits n = [of_nat (48 + n)]"
  by (simp add: digits.simps)

lemma is_safe_integer_of_int:
  "\<bar>i\<bar> \<le> 9007199254740991 \<Longrightarrow> is_safe_integer (of_int i)"
  by (simp add: is_safe_integer_def flip: of_int_abs)

lemma calculator_six_by_three:
  "calculator en (Fin 6) (Fin 3) Divide =
     Inr \<lparr>content = [Text (ascii ''6 / 3 = 2'')],
          structuredContent = Some [Text (ascii ''6 / 3 = 2'')]\<rparr>"
  by (simp add: calculator_def calculator_switch_def number_to_string_def fp_def
      is_safe_integer_def digits_small ascii_def Let_def)

subsection \<open>The calculator\<close>

text \<open>
  C1. With the operator \<^verbatim>\<open>/\<close> the calculator throws exactly when the second operand is
  zero. For a second operand other than zero it returns one text block, the first
  operand, \<^verbatim>\<open> / \<close>, the second operand, \<^verbatim>\<open> = \<close> and the quotient, each printed as a
  number; for finite operands the quotient is the exact quotient, rounded where it is
  not a safe integer. For a zero divisor it throws the division-by-zero error and
  returns no result. Six divided by three gives the text \<^verbatim>\<open>6 / 3 = 2\<close>.
\<close>

theorem calculator_divide:
  "(number2 \<noteq> Fin 0 \<longrightarrow>
      calculator en number1 number2 Divide =
        Inr \<lparr>content =
               [Text (number_to_string en number1 @ ascii '' / '' @
                      number_to_string en number2 @ ascii '' = '' @
                      number_to_string en (js_div en number1 number2))],
             structuredContent =
               Some [Text (number_to_string en number1 @ ascii '' / '' @
                           number_to_string en number2 @ ascii '' = '' @
                           number_to_string en (js_div en number1 number2))]\<rparr>)
   \<and> (b \<noteq> 0 \<longrightarrow> js_div en (Fin a) (Fin b) = fp en (a / b))
   \<and> calculator en number1 (Fin 0) Divide = Inl (Error division_by_zero)
   \<and> ((\<exists>e. calculator en number1 number2 Divide = Inl e) \<longleftrightarrow> number2 = Fin 0)
   \<and> calculator en (Fin 6) (Fin 3) Divide =
        Inr \<lparr>content = [Text (ascii ''6 / 3 = 2'')],
             structuredContent = Some [Text (ascii ''6 / 3 = 2'')]\<rparr>"
  using calculator_six_by_three [of en]
  by (simp add: calculator_def calculator_switch_def Let_def)

theorem calculator_divide_witness:
  "Fin 2 \<noteq> Fin 0 \<and> (2::rat) \<noteq> 0
   \<and> calculator example_engine (Fin 8) (Fin 2) Divide =
        Inr \<lparr>content = [Text (ascii ''8 / 2 = 4'')],
             structuredContent = Some [Text (ascii ''8 / 2 = 4'')]\<rparr>
   \<and> js_div example_engine (Fin 8) (Fin 2) = Fin 4"
  using calculator_divide [of "Fin 2" example_engine "Fin 8" 2 8]
  by (simp add: number_to_string_def fp_def is_safe_integer_def digits_small ascii_def)

subsection \<open>Steps that can throw\<close>

lemma and_then_Inr_iff:
  "and_then x f = Inr r \<longleftrightarrow> (\<exists>y. x = Inr y \<and> f y = Inr r)"
  by (cases x) (simp_all add: and_then_def)

lemma and_then_Inl_iff:
  "and_then x f = Inl e \<longleftrightarrow> x = Inl e \<or> (\<exists>y. x = Inr y \<and> f y = Inl e)"
  by (cases x) (simp_all add: and_then_def)

subsection \<open>Content and structured content\<close>

lemma greet_mirrored:
  "greet name language = Inr r \<Longrightarrow> structuredContent r = Some (content r)"
  by (auto simp: greet_def Let_def)

lemma calculator_mirrored:
  "calculator en number1 number2 operator = Inr r
   \<Longrightarrow> structuredContent r = Some (content r)"
  by (auto simp: calculator_def Let_def split: sum.splits prod.splits)

lemma get_time_mirrored:
  "get_time w timezone = Inr r \<Longrightarrow> structuredContent r = Some (content r)"
  by (auto simp: get_time_def get_time_try_def Let_def split: sum.splits)

lemma geocode_data_mirrored:
  "geocode_data en query data = Inr r \<Longrightarrow> structuredContent r = Some (content r)"
  by (auto simp: geocode_data_def and_then_Inr_iff Let_def split: if_splits)

lemma geocode_mirrored:
  "geocode en w query = (Inr r, requests) \<Longrightarrow> structuredContent r = Some (content r)"
  by (auto simp: geocode_def geocode_try_def and_then_Inr_iff
      split: sum.splits thrown.splits if_splits dest: geocode_data_mirrored)

lemma get_weather_data_mirrored:
  "get_weather_data en latitude longitude forecast_days data = Inr r
   \<Longrightarrow> structuredContent r = Some (content r)"
  by (auto simp: get_weather_data_def and_then_Inr_iff split: if_splits)

lemma get_weather_mirrored:
  "get_weather en w latitude longitude argument = (Inr r, requests)
   \<Longrightarrow> structuredContent r = Some (content r)"
  by (auto simp: get_weather_def get_weather_try_def and_then_Inr_iff Let_def
      split: sum.splits thrown.splits if_splits dest: get_weather_data_mirrored)

lemma generate_image_unstructured:
  "generate_image en w prompt = (Inr r, requests) \<Longrightarrow> structuredContent r = None"
  by (auto simp: generate_image_def generate_image_try_def Let_def
      split: sum.splits thrown.splits if_splits)

lemma handler_mirrors:
  assumes "d \<in> set registered_tools"
    and "handler d en w args = Some (Inr result, requests)"
  shows "if outputSchema d = None then structuredContent result = None
         else structuredContent result = Some (content result)"
proof -
  from assms(1) consider "d = greet_tool" | "d = calculator_tool" | "d = get_time_tool"
    | "d = geocode_tool" | "d = get_weather_tool" | "d = generate_image_tool"
    by (auto simp: registered_tools_def)
  then show ?thesis
  proof cases
    case 1
    with assms(2) show ?thesis
      by (auto simp: greet_tool_def split: option.splits dest: greet_mirrored)
  next
    case 2
    with assms(2) show ?thesis
      by (auto simp: calculator_tool_def split: option.splits dest: calculator_mirrored)
  next
    case 3
    with assms(2) show ?thesis
      by (auto simp: get_time_tool_def split: option.splits dest: get_time_mirrored)
  next
    case 4
    with assms(2) show ?thesis
      by (auto simp: geocode_tool_def split: option.splits dest: geocode_mirrored)
  next
    case 5
    with assms(2) show ?thesis
      by (auto simp: get_weather_tool_def split: option.splits dest: get_weather_mirrored)
  next
    case 6
    with assms(2) show ?thesis
      by (auto simp: generate_image_tool_def split: option.splits
          dest: generate_image_unstructured)
  qed
qed

lemma declared_output_schemas:
  "map tool_name (filter (\<lambda>d. outputSchema d \<noteq> None) registered_tools) =
     [ascii ''greet'', ascii ''calculator'', ascii ''get_time'', ascii ''geocode'',
      ascii ''get_weather'']"
  "map tool_name (filter (\<lambda>d. outputSchema d = None) registered_tools) =
     [ascii ''generate_image'']"
  by (simp_all add: registered_tools_def greet_tool_def calculator_tool_def get_time_tool_def
      geocode_tool_def get_weather_tool_def generate_image_tool_def)

lemma greet_tool_in_registry: "greet_tool \<in> set registered_tools"
  by (simp add: registered_tools_def)

lemma greet_handler_example:
  "handler greet_tool example_engine example_world
     [(ascii ''name'', Str (ascii ''Sam'')), (ascii ''language'', Str (ascii ''en''))] =
   Some (Inr \<lparr>content = [Text (greet_en_0 @ ascii ''Sam'' @ greet_en_1)],
              structuredContent = Some [Text (greet_en_0 @ ascii ''Sam'' @ greet_en_1)]\<rparr>, [])"
  by (simp add: greet_tool_def string_argument_def language_of_def greet_def ascii_def Let_def)

lemma generate_image_example:
  "generate_image example_engine
     (example_world\<lparr>process_env_HF_TOKEN := Some (ascii ''hf_x'')\<rparr>) (ascii ''cat'') =
   (Inr \<lparr>content = [Image (ascii ''AAAA'') (ascii ''image/png'')], structuredContent = None\<rparr>,
    [TextToImage (ascii ''hf_x'') flux_model (ascii ''cat'')])"
  by (simp add: generate_image_def generate_image_try_def HF_TOKEN_def example_world_def
      example_engine_def ascii_def)

text \<open>
  C2. Whenever the handler of a registered tool returns a result, the result has a
  structured content exactly when the tool declares an output schema, and then the
  structured content holds the very content list of the result. The tools that
  declare an output schema are greet, calculator, get_time, geocode and get_weather;
  generate_image declares none, and a result of generate_image has no structured
  content.
\<close>

theorem structured_content_mirrors_content:
  "(d \<in> set registered_tools \<and> handler d en w args = Some (Inr result, requests) \<longrightarrow>
      (structuredContent result \<noteq> None \<longleftrightarrow> outputSchema d \<noteq> None)
      \<and> (outputSchema d \<noteq> None \<longrightarrow> structuredContent result = Some (content result)))
   \<and> map tool_name (filter (\<lambda>d. outputSchema d \<noteq> None) registered_tools) =
       [ascii ''greet'', ascii ''calculator'', ascii ''get_time'', ascii ''geocode'',
        ascii ''get_weather'']
   \<and> map tool_name (filter (\<lambda>d. outputSchema d = None) registered_tools) =
       [ascii ''generate_image'']
   \<and> (generate_image en w prompt = (Inr picture, picture_requests) \<longrightarrow>
        structuredContent picture = None)"
  using handler_mirrors [of d en w args result requests] declared_output_schemas
    generate_image_unstructured [of en w prompt picture picture_requests]
  by (auto split: if_splits)

theorem structured_content_mirrors_content_witness:
  "greet_tool \<in> set registered_tools
   \<and> handler greet_tool example_engine
        (example_world\<lparr>process_env_HF_TOKEN := Some (ascii ''hf_x'')\<rparr>)
        [(ascii ''name'', Str (ascii ''Sam'')), (ascii ''language'', Str (ascii ''en''))] =
      Some (Inr \<lparr>content = [Text (greet_en_0 @ ascii ''Sam'' @ greet_en_1)],
                 structuredContent = Some [Text (greet_en_0 @ ascii ''Sam'' @ greet_en_1)]\<rparr>, [])
   \<and> outputSchema greet_tool \<noteq> None
   \<and> structuredContent
        \<lparr>content = [Text (greet_en_0 @ ascii ''Sam'' @ greet_en_1)],
         structuredContent = Some [Text (greet_en_0 @ ascii ''Sam'' @ greet_en_1)]\<rparr> =
      Some (content
        \<lparr>content = [Text (greet_en_0 @ ascii ''Sam'' @ greet_en_1)],
         structuredContent = Some [Text (greet_en_0 @ ascii ''Sam'' @ greet_en_1)]\<rparr>)
   \<and> generate_image example_engine
        (example_world\<lparr>process_env_HF_TOKEN := Some (ascii ''hf_x'')\<rparr>) (ascii ''cat'') =
      (Inr \<lparr>content = [Image (ascii ''AAAA'') (ascii ''image/png'')],
            structuredContent = None\<rparr>,
       [TextToImage (ascii ''hf_x'') flux_model (ascii ''cat'')])
   \<and> structuredContent
        \<lparr>content = [Image (ascii ''AAAA'') (ascii ''image/png'')],
         structuredContent = None\<rparr> = None"
  using structured_content_mirrors_content
    [where d = greet_tool and en = example_engine
       and w = "example_world\<lparr>process_env_HF_TOKEN := Some (ascii ''hf_x'')\<rparr>"
       and args = "[(ascii ''name'', Str (ascii ''Sam'')),
                    (ascii ''language'', Str (ascii ''en''))]"
       and result = "\<lparr>content = [Text (greet_en_0 @ ascii ''Sam'' @ greet_en_1)],
          structuredContent = Some [Text (greet_en_0 @ ascii ''Sam'' @ greet_en_1)]\<rparr>"
       and requests = "[]" and prompt = "ascii ''cat''"
       and picture = "\<lparr>content = [Image (ascii ''AAAA'') (ascii ''image/png'')],
          structuredContent = None\<rparr>"
       and picture_requests = "[TextToImage (ascii ''hf_x'') flux_model (ascii ''cat'')]"]
    greet_tool_in_registry generate_image_example
  by (simp add: greet_tool_def string_argument_def language_of_def greet_def ascii_def Let_def)

subsection \<open>The greeting\<close>

lemma greet_texts_differ:
  "greet_ko_0 @ name @ greet_ko_1 \<noteq> greet_en_0 @ name @ greet_en_1"
  by (simp add: greet_ko_0_def greet_en_0_def ascii_def)

lemma validate_greet_default:
  "validate_shape (inputSchema greet_tool) [(ascii ''name'', Str name)] =
     Inr [(ascii ''name'', Str name), (ascii ''language'', Str (ascii ''en''))]"
  by (simp add: greet_tool_def ascii_def)

lemma call_greet_omitted:
  "call_tool registered_tools en w (ascii ''greet'') [(ascii ''name'', Str name)] =
     (ResponseEnvelope
        \<lparr>content = [Text (greet_en_0 @ name @ greet_en_1)],
         structuredContent = Some [Text (greet_en_0 @ name @ greet_en_1)]\<rparr>, [])"
  by (simp add: call_tool_def registered_tools_def greet_tool_def string_argument_def
      language_of_def greet_def ascii_def Let_def)

lemma call_greet_ko:
  "call_tool registered_tools en w (ascii ''greet'')
     [(ascii ''name'', Str name), (ascii ''language'', Str (ascii ''ko''))] =
     (ResponseEnvelope
        \<lparr>content = [Text (greet_ko_0 @ name @ greet_ko_1)],
         structuredContent = Some [Text (greet_ko_0 @ name @ greet_ko_1)]\<rparr>, [])"
  by (simp add: call_tool_def registered_tools_def greet_tool_def string_argument_def
      language_of_def greet_def ascii_def Let_def)

lemma greet_sam_ko:
  "greet_ko_0 @ ascii ''Sam'' @ greet_ko_1 =
     [0xC548, 0xB155, 0xD558, 0xC138, 0xC694, 0x2C, 0x20, 0x53, 0x61, 0x6D, 0xB2D8, 0x21]"
  by (simp add: greet_ko_0_def greet_ko_1_def ascii_def)

lemma greet_sam_en:
  "sublist (ascii ''Hey there, Sam!'') (greet_en_0 @ ascii ''Sam'' @ greet_en_1)"
proof -
  have "greet_en_0 @ ascii ''Sam'' @ greet_en_1 =
        ascii ''Hey there, Sam!'' @ [0x20, 0xD83D, 0xDC4B] @ ascii '' Nice to meet you!''"
    by (simp add: greet_en_0_def greet_en_1_def ascii_def)
  then show ?thesis
    by (metis prefix_imp_sublist prefixI)
qed

text \<open>
  C3. For every name the handler returns the Korean greeting for the language
  \<^verbatim>\<open>ko\<close> and the English greeting for \<^verbatim>\<open>en\<close>, and its text is the Korean greeting
  exactly when the language is \<^verbatim>\<open>ko\<close>. For the name Sam the Korean greeting is
  \<^verbatim>\<open>U+C548 U+B155 U+D558 U+C138 U+C694\<close>, comma, space, \<^verbatim>\<open>Sam\<close>, \<^verbatim>\<open>U+B2D8\<close>, exclamation
  mark, and the English greeting contains \<^verbatim>\<open>Hey there, Sam!\<close>. A call that omits
  the language is validated to the declared default \<^verbatim>\<open>en\<close> and answered with the
  English greeting; a call with the language \<^verbatim>\<open>ko\<close> is answered with the Korean
  one.
\<close>

theorem greet_language:
  "greet name Ko =
     Inr \<lparr>content = [Text (greet_ko_0 @ name @ greet_ko_1)],
          structuredContent = Some [Text (greet_ko_0 @ name @ greet_ko_1)]\<rparr>
   \<and> greet name En =
     Inr \<lparr>content = [Text (greet_en_0 @ name @ greet_en_1)],
          structuredContent = Some [Text (greet_en_0 @ name @ greet_en_1)]\<rparr>
   \<and> ((\<exists>r. greet name language = Inr r \<and> content r = [Text (greet_ko_0 @ name @ greet_ko_1)])
        \<longleftrightarrow> language = Ko)
   \<and> greet_ko_0 @ ascii ''Sam'' @ greet_ko_1 =
       [0xC548, 0xB155, 0xD558, 0xC138, 0xC694, 0x2C, 0x20, 0x53, 0x61, 0x6D, 0xB2D8, 0x21]
   \<and> sublist (ascii ''Hey there, Sam!'') (greet_en_0 @ ascii ''Sam'' @ greet_en_1)
   \<and> validate_shape (inputSchema greet_tool) [(ascii ''name'', Str name)] =
       Inr [(ascii ''name'', Str name), (ascii ''language'', Str (ascii ''en''))]
   \<and> call_tool registered_tools en w (ascii ''greet'') [(ascii ''name'', Str name)] =
       (ResponseEnvelope
          \<lparr>content = [Text (greet_en_0 @ name @ greet_en_1)],
           structuredContent = Some [Text (greet_en_0 @ name @ greet_en_1)]\<rparr>, [])
   \<and> call_tool registered_tools en w (ascii ''greet'')
         [(ascii ''name'', Str name), (ascii ''language'', Str (ascii ''ko''))] =
       (ResponseEnvelope
          \<lparr>content = [Text (greet_ko_0 @ name @ greet_ko_1)],
           structuredContent = Some [Text (greet_ko_0 @ name @ greet_ko_1)]\<rparr>, [])"
  using greet_texts_differ [of name] greet_sam_ko greet_sam_en validate_greet_default [of name]
    call_greet_omitted [of en w name] call_greet_ko [of en w name]
  by (cases language) (simp_all add: greet_def Let_def)

theorem greet_language_witness:
  "call_tool registered_tools example_engine example_world (ascii ''greet'')
     [(ascii ''name'', Str (ascii ''Sam''))] =
     (ResponseEnvelope
        \<lparr>content = [Text (greet_en_0 @ ascii ''Sam'' @ greet_en_1)],
         structuredContent = Some [Text (greet_en_0 @ ascii ''Sam'' @ greet_en_1)]\<rparr>, [])
   \<and> sublist (ascii ''Hey there, Sam!'') (greet_en_0 @ ascii ''Sam'' @ greet_en_1)
   \<and> greet (ascii ''Sam'') Ko =
       Inr \<lparr>content =
              [Text [0xC548, 0xB155, 0xD558, 0xC138, 0xC694, 0x2C, 0x20, 0x53, 0x61, 0x6D,
                     0xB2D8, 0x21]],
            structuredContent =
              Some [Text [0xC548, 0xB155, 0xD558, 0xC138, 0xC694, 0x2C, 0x20, 0x53, 0x61, 0x6D,
                          0xB2D8, 0x21]]\<rparr>"
  using greet_language [of "ascii ''Sam''" En example_engine example_world]
  by simp

subsection \<open>The image generator and its token\<close>

lemma HF_TOKEN_empty_iff:
  "HF_TOKEN w = [] \<longleftrightarrow>
     (process_env_HF_TOKEN w = None \<or> process_env_HF_TOKEN w = Some [])
     \<and> token_from_file w = []"
  by (auto simp: HF_TOKEN_def split: option.splits)

lemma generate_image_no_token:
  "HF_TOKEN w = [] \<Longrightarrow>
     generate_image en w prompt = (Inl (Error (image_error token_missing)), [])"
  by (simp add: generate_image_def generate_image_try_def)

lemma generate_image_with_token:
  "HF_TOKEN w \<noteq> [] \<Longrightarrow>
     snd (generate_image en w prompt) = [TextToImage (HF_TOKEN w) flux_model prompt]"
  by (simp add: generate_image_def generate_image_try_def split: sum.splits thrown.splits)

lemma token_missing_in_message: "sublist token_missing (image_error token_missing)"
  by (metis image_error_def suffix_imp_sublist suffixI)

lemma example_world_token: "HF_TOKEN example_world = []"
  by (simp add: HF_TOKEN_def token_from_file_def example_world_def)

text \<open>
  C6. When \<^verbatim>\<open>HF_TOKEN\<close> is empty, generate_image throws, for every prompt, the error of
  its \<^verbatim>\<open>catch\<close> block around the missing-token message, and sends no request at all.
  The token is empty exactly when the environment variable is unset or empty and the
  token file is unreadable or blank. With a token, exactly one text-to-image request
  is sent.
\<close>

theorem generate_image_needs_token:
  "(HF_TOKEN w = [] \<longrightarrow>
      generate_image en w prompt = (Inl (Error (image_error token_missing)), [])
      \<and> snd (generate_image en w prompt) = [])
   \<and> sublist token_missing (image_error token_missing)
   \<and> (HF_TOKEN w = [] \<longleftrightarrow>
        (process_env_HF_TOKEN w = None \<or> process_env_HF_TOKEN w = Some [])
        \<and> token_from_file w = [])
   \<and> (HF_TOKEN w \<noteq> [] \<longrightarrow>
        snd (generate_image en w prompt) = [TextToImage (HF_TOKEN w) flux_model prompt])"
  using generate_image_no_token [of w en prompt] generate_image_with_token [of w en prompt]
    token_missing_in_message HF_TOKEN_empty_iff [of w]
  by simp

theorem generate_image_needs_token_witness:
  "HF_TOKEN example_world = []
   \<and> generate_image example_engine example_world (ascii ''a cat'') =
       (Inl (Error (image_error token_missing)), [])
   \<and> HF_TOKEN (example_world\<lparr>process_env_HF_TOKEN := Some (ascii ''hf_x'')\<rparr>) \<noteq> []
   \<and> snd (generate_image example_engine
        (example_world\<lparr>process_env_HF_TOKEN := Some (ascii ''hf_x'')\<rparr>) (ascii ''a cat'')) =
       [TextToImage (ascii ''hf_x'') flux_model (ascii ''a cat'')]"
  using generate_image_needs_token [of example_world example_engine "ascii ''a cat''"]
    generate_image_needs_token
      [of "example_world\<lparr>process_env_HF_TOKEN := Some (ascii ''hf_x'')\<rparr>" example_engine
          "ascii ''a cat''"]
    example_world_token
  by (simp add: HF_TOKEN_def ascii_def)

subsection \<open>The server-info document\<close>

lemma registered_tool_names:
  "map tool_name registered_tools =
     [ascii ''greet'', ascii ''calculator'', ascii ''get_time'', ascii ''geocode'',
      ascii ''get_weather'', ascii ''generate_image'']"
  by (simp add: registered_tools_def greet_tool_def calculator_tool_def get_time_tool_def
      geocode_tool_def get_weather_tool_def generate_image_tool_def)

lemma registered_tool_names_distinct: "distinct (map tool_name registered_tools)"
  unfolding registered_tool_names by (simp add: ascii_def)

lemma server_info_tool_names:
  "map (entry_name en) server_info_tools =
     map (\<lambda>d. Inr (Str (tool_name d))) registered_tools"
  by (simp add: server_info_tools_def entry_name_def registered_tools_def greet_tool_def
      calculator_tool_def get_time_tool_def geocode_tool_def get_weather_tool_def
      generate_image_tool_def ascii_def)

lemma capability_tools:
  "capability en (serverInfo en w) (ascii ''tools'') =
     Inr (Num (Fin (of_nat (length server_info_tools))), Arr server_info_tools)"
  by (simp add: capability_def serverInfo_def and_then_def ascii_def Let_def)

lemma capability_prompts:
  "capability en (serverInfo en w) (ascii ''prompts'') =
     Inr (Num (Fin (of_nat (length server_info_prompts))), Arr server_info_prompts)"
  by (simp add: capability_def serverInfo_def and_then_def ascii_def Let_def)

lemma capability_resources:
  "capability en (serverInfo en w) (ascii ''resources'') =
     Inr (Num (Fin (of_nat (length server_info_resources))), Arr server_info_resources)"
  by (simp add: capability_def serverInfo_def and_then_def ascii_def Let_def)

lemma server_info_lengths:
  "length server_info_tools = 6" "length server_info_prompts = 1"
  "length server_info_resources = 1"
  by (simp_all add: server_info_tools_def server_info_prompts_def server_info_resources_def)

lemma server_info_text:
  "server_info en w =
     [\<lparr>uri = ascii ''mcp://server-info'', mimeType = ascii ''application/json'',
       text' = JSON_stringify en (serverInfo en w)\<rparr>]"
  by (simp add: server_info_def)

text \<open>
  C8. The resource returns the JSON text of the object \<^verbatim>\<open>serverInfo\<close>. In that object
  the list of the \<^verbatim>\<open>tools\<close> section names the registered tools, each once, in the order
  of their registration: greet, calculator, get_time, geocode, get_weather,
  generate_image. In each of the sections \<^verbatim>\<open>tools\<close>, \<^verbatim>\<open>prompts\<close> and \<^verbatim>\<open>resources\<close> the
  count is the length of the list: six tools, one prompt, one resource.
\<close>

theorem server_info_lists_tools:
  "server_info en w =
     [\<lparr>uri = ascii ''mcp://server-info'', mimeType = ascii ''application/json'',
       text' = JSON_stringify en (serverInfo en w)\<rparr>]
   \<and> capability en (serverInfo en w) (ascii ''tools'') =
       Inr (Num (Fin (of_nat (length server_info_tools))), Arr server_info_tools)
   \<and> map (entry_name en) server_info_tools =
       map (\<lambda>d. Inr (Str (tool_name d))) registered_tools
   \<and> map tool_name registered_tools =
       [ascii ''greet'', ascii ''calculator'', ascii ''get_time'', ascii ''geocode'',
        ascii ''get_weather'', ascii ''generate_image'']
   \<and> distinct (map tool_name registered_tools)
   \<and> length server_info_tools = length registered_tools
   \<and> capability en (serverInfo en w) (ascii ''prompts'') =
       Inr (Num (Fin (of_nat (length server_info_prompts))), Arr server_info_prompts)
   \<and> capability en (serverInfo en w) (ascii ''resources'') =
       Inr (Num (Fin (of_nat (length server_info_resources))), Arr server_info_resources)
   \<and> length server_info_tools = 6
   \<and> length server_info_prompts = 1
   \<and> length server_info_resources = 1"
  using server_info_text [of en w] capability_tools [of en w] capability_prompts [of en w]
    capability_resources [of en w] server_info_tool_names [of en] registered_tool_names
    registered_tool_names_distinct server_info_lengths
  by (simp add: registered_tools_def)

subsection \<open>Handlers that depend on their arguments only\<close>

lemma greet_handler_pure:
  "handler greet_tool en w args = handler greet_tool en' w' args"
  by (simp add: greet_tool_def)

lemma calculator_handler_pure:
  "handler calculator_tool en w args = handler calculator_tool en w' args"
  by (simp add: calculator_tool_def)

lemma code_review_handler_pure:
  "prompt_handler code_review_prompt en w args = prompt_handler code_review_prompt en' w' args"
  by (simp add: code_review_prompt_def)

lemma greet_handler_silent:
  "handler greet_tool en w args = Some (r, requests) \<Longrightarrow> requests = []"
  by (auto simp: greet_tool_def split: option.splits)

lemma calculator_handler_silent:
  "handler calculator_tool en w args = Some (r, requests) \<Longrightarrow> requests = []"
  by (auto simp: calculator_tool_def split: option.splits)

text \<open>
  By contrast the result of get_time changes with the world: the same call succeeds
  where the time zone is known and throws where it is not.
\<close>

lemma get_time_depends_on_world:
  "handler get_time_tool example_engine example_world [(ascii ''timezone'', Str (ascii ''UTC''))]
   \<noteq> handler get_time_tool example_engine
       (example_world\<lparr>Intl_DateTimeFormat := (\<lambda>timezone. Inl NonError)\<rparr>)
       [(ascii ''timezone'', Str (ascii ''UTC''))]"
  by (simp add: get_time_tool_def string_argument_def get_time_def get_time_try_def
      example_world_def Let_def ascii_def)

text \<open>
  C9. The handlers of greet, calculator and code-review are functions of their
  arguments: on equal arguments each returns the same result in every world, greet
  and code-review for every engine too (the calculator computes with the engine's
  numbers, which are the language's and do not change between calls). The two tool
  handlers send no request.
\<close>

theorem pure_handlers_deterministic:
  "handler greet_tool en w args = handler greet_tool en' w' args
   \<and> handler calculator_tool en w args = handler calculator_tool en w' args
   \<and> prompt_handler code_review_prompt en w args =
       prompt_handler code_review_prompt en' w' args
   \<and> (handler greet_tool en w args = Some (r, requests) \<longrightarrow> requests = [])
   \<and> (handler calculator_tool en w args = Some (r, requests) \<longrightarrow> requests = [])"
  using greet_handler_pure [of en w args en' w'] calculator_handler_pure [of en w args w']
    code_review_handler_pure [of en w args en' w']
    greet_handler_silent [of en w args r requests]
    calculator_handler_silent [of en w args r requests]
  by blast

theorem pure_handlers_deterministic_witness:
  "handler greet_tool example_engine example_world
     [(ascii ''name'', Str (ascii ''Sam'')), (ascii ''language'', Str (ascii ''en''))] =
   Some (Inr \<lparr>content = [Text (greet_en_0 @ ascii ''Sam'' @ greet_en_1)],
              structuredContent = Some [Text (greet_en_0 @ ascii ''Sam'' @ greet_en_1)]\<rparr>, [])
   \<and> handler greet_tool example_engine example_world
       [(ascii ''name'', Str (ascii ''Sam'')), (ascii ''language'', Str (ascii ''en''))] =
     handler greet_tool example_engine (answering example_place)
       [(ascii ''name'', Str (ascii ''Sam'')), (ascii ''language'', Str (ascii ''en''))]"
  using pure_handlers_deterministic
    [of example_engine example_world
        "[(ascii ''name'', Str (ascii ''Sam'')), (ascii ''language'', Str (ascii ''en''))]"
        example_engine "answering example_place"
        "Inr \<lparr>content = [Text (greet_en_0 @ ascii ''Sam'' @ greet_en_1)],
              structuredContent = Some [Text (greet_en_0 @ ascii ''Sam'' @ greet_en_1)]\<rparr>" "[]"]
    greet_handler_example
  by simp

subsection \<open>The weather forecast\<close>

lemma days_to_show:
  "0 \<le> n \<Longrightarrow> js_lt (Fin (of_nat i)) (Math_min (Fin (of_int n)) (Fin 3)) \<longleftrightarrow> i < nat (min n 3)"
proof -
  assume n: "0 \<le> n"
  have "(of_nat i :: rat) = of_int (int i)" by simp
  then have *: "(of_nat i :: rat) < of_int n \<longleftrightarrow> int i < n"
    by (metis of_int_less_iff)
  have **: "(of_nat i :: rat) < 3 \<longleftrightarrow> i < 3"
    using of_nat_less_iff [of i "3::nat", where ?'a = rat] by simp
  from n show ?thesis
    by (auto simp: * ** min_def)
qed

lemma forecast_loop_length:
  "forecast_loop en daily (Fin (of_int n)) i acc = Inr days \<Longrightarrow> 0 \<le> n
   \<Longrightarrow> length days = length acc + (nat (min n 3) - i)"
proof (induction en daily "Fin (of_int n)" i acc rule: forecast_loop.induct)
  case (1 en daily i dailyForecast)
  note unfolded =
    1(2) [unfolded forecast_loop.simps [of en daily "Fin (of_int n)" i dailyForecast]
            days_to_show [OF 1(3)]]
  show ?case
  proof (cases "i < nat (min n 3)")
    case True
    with unfolded 1(3) obtain day where
      day: "forecast_entry en daily i = Inr day"
      and rest: "forecast_loop en daily (Fin (of_int n)) (Suc i) (dailyForecast @ [day]) = Inr days"
      by (auto split: sum.splits)
    from True have "js_lt (Fin (of_nat i)) (Math_min (Fin (of_int n)) (Fin 3))"
      using days_to_show [OF 1(3), of i] by blast
    from 1(1) [OF this day rest 1(3)] True show ?thesis by (simp del: min_less_iff_conj) arith
  next
    case False
    with unfolded 1(3) have "days = dailyForecast"
      by simp
    with False show ?thesis by simp
  qed
qed

lemma append_forecast_blocks:
  "append_forecast en t days = Inr t'
   \<Longrightarrow> \<exists>blocks. list_all2 (\<lambda>day block. forecast_text en day = Inr block) days blocks
         \<and> t' = t @ concat blocks"
proof (induction days arbitrary: t)
  case Nil
  then show ?case by simp
next
  case (Cons day days)
  from Cons.prems obtain b where b: "forecast_text en day = Inr b"
    and rest: "append_forecast en (t @ b) days = Inr t'"
    by (auto split: sum.splits)
  from Cons.IH [OF rest] obtain blocks where
    "list_all2 (\<lambda>day block. forecast_text en day = Inr block) days blocks"
    "t' = (t @ b) @ concat blocks" by blast
  with b have "list_all2 (\<lambda>day block. forecast_text en day = Inr block) (day # days) (b # blocks)
     \<and> t' = t @ concat (b # blocks)" by simp
  then show ?case by blast
qed

lemma get_weather_data_entries:
  assumes "get_weather_data en latitude longitude fd data = Inr r"
  shows "\<exists>daily days current blocks.
           get_prop en data (ascii ''daily'') = Inr daily
           \<and> forecast_loop en daily fd 0 [] = Inr days
           \<and> list_all2 (\<lambda>day block. forecast_text en day = Inr block) days blocks
           \<and> content r =
               [Text (current @
                      weather_text_forecast (number_to_string en fd)
                        (number_to_string en (Math_min fd (Fin 3))) @
                      concat blocks)]"
proof -
  from assms obtain daily days current t where
    daily: "get_prop en data (ascii ''daily'') = Inr daily"
    and days: "forecast_loop en daily fd 0 [] = Inr days"
    and t: "append_forecast en
              (current @
               weather_text_forecast (number_to_string en fd)
                 (number_to_string en (Math_min fd (Fin 3)))) days = Inr t"
    and r: "content r = [Text t]"
    by (auto simp: get_weather_data_def and_then_Inr_iff simp flip: append_assoc
        split: if_splits)
  from append_forecast_blocks [OF t] obtain blocks where
    "list_all2 (\<lambda>day block. forecast_text en day = Inr block) days blocks"
    "t = (current @
          weather_text_forecast (number_to_string en fd)
            (number_to_string en (Math_min fd (Fin 3)))) @ concat blocks" by blast
  with daily days r show ?thesis by auto
qed

lemma get_weather_entries:
  assumes "get_weather en w latitude longitude argument = (Inr r, requests)"
    and "fd = (case argument of None \<Rightarrow> Fin 7 | Some n \<Rightarrow> n)"
  shows "\<exists>response data daily days current blocks.
           fetch w (weather_url en latitude longitude fd) [] = Inr response
           \<and> json response = Inr data
           \<and> get_prop en data (ascii ''daily'') = Inr daily
           \<and> forecast_loop en daily fd 0 [] = Inr days
           \<and> list_all2 (\<lambda>day block. forecast_text en day = Inr block) days blocks
           \<and> content r =
               [Text (current @
                      weather_text_forecast (number_to_string en fd)
                        (number_to_string en (Math_min fd (Fin 3))) @
                      concat blocks)]"
proof -
  from assms obtain response data where
    response: "fetch w (weather_url en latitude longitude fd) [] = Inr response"
    and data: "json response = Inr data"
    and r: "get_weather_data en latitude longitude fd data = Inr r"
    by (auto simp: get_weather_def get_weather_try_def and_then_Inr_iff Let_def
        split: sum.splits thrown.splits if_splits)
  from get_weather_data_entries [OF r] response data show ?thesis by blast
qed

lemma get_weather_entries_count:
  assumes "get_weather en w latitude longitude argument = (Inr r, requests)"
    and "Fin (of_int n) = (case argument of None \<Rightarrow> Fin 7 | Some m \<Rightarrow> m)"
    and "0 \<le> n"
  shows "\<exists>response data daily days current blocks.
           fetch w (weather_url en latitude longitude (Fin (of_int n))) [] = Inr response
           \<and> json response = Inr data
           \<and> get_prop en data (ascii ''daily'') = Inr daily
           \<and> forecast_loop en daily (Fin (of_int n)) 0 [] = Inr days
           \<and> list_all2 (\<lambda>day block. forecast_text en day = Inr block) days blocks
           \<and> content r =
               [Text (current @
                      weather_text_forecast (number_to_string en (Fin (of_int n)))
                        (number_to_string en (Fin (of_int (min n 3)))) @
                      concat blocks)]
           \<and> length days = nat (min n 3)
           \<and> length blocks = nat (min n 3)"
proof -
  from get_weather_entries [OF assms(1,2)] obtain response data daily days current blocks where
    *: "fetch w (weather_url en latitude longitude (Fin (of_int n))) [] = Inr response"
       "json response = Inr data"
       "get_prop en data (ascii ''daily'') = Inr daily"
       "forecast_loop en daily (Fin (of_int n)) 0 [] = Inr days"
       "list_all2 (\<lambda>day block. forecast_text en day = Inr block) days blocks"
       "content r =
               [Text (current @
                      weather_text_forecast (number_to_string en (Fin (of_int n)))
                        (number_to_string en (Math_min (Fin (of_int n)) (Fin 3))) @
                      concat blocks)]"
    by blast
  have m: "Math_min (Fin (of_int n)) (Fin 3) = Fin (of_int (min n 3))"
    by (simp add: min_def)
  from forecast_loop_length [OF *(4) assms(3)] have "length days = nat (min n 3)" by simp
  moreover from *(5) have "length blocks = length days" by (simp add: list_all2_lengthD)
  ultimately show ?thesis using * m by auto
qed

lemma forecast_entry_arrays:
  assumes "map_of kvs (ascii ''time'') = Some (Arr ts)"
    and "map_of kvs (ascii ''temperature_2m_max'') = Some (Arr maxs)"
    and "map_of kvs (ascii ''temperature_2m_min'') = Some (Arr mins)"
    and "map_of kvs (ascii ''precipitation_sum'') = Some (Arr ps)"
    and "map_of kvs (ascii ''weathercode'') = Some (Arr cs)"
  shows "\<exists>day. forecast_entry en (Obj kvs) i = Inr day"
  using assms by (simp add: forecast_entry_def and_then_def)

lemma forecast_loop_succeeds:
  "\<forall>i. \<exists>day. forecast_entry en daily i = Inr day
   \<Longrightarrow> \<exists>days. forecast_loop en daily (Fin (of_int n)) i acc = Inr days"
proof (induction en daily "Fin (of_int n)" i acc rule: forecast_loop.induct)
  case (1 en daily i dailyForecast)
  note step = forecast_loop.simps [of en daily "Fin (of_int n)" i dailyForecast]
  show ?case
  proof (cases "js_lt (Fin (of_nat i)) (Math_min (Fin (of_int n)) (Fin 3))")
    case True
    from 1(2) obtain day where day: "forecast_entry en daily i = Inr day" by blast
    from 1(1) [OF True day 1(2)] obtain days where
      "forecast_loop en daily (Fin (of_int n)) (Suc i) (dailyForecast @ [day]) = Inr days"
      by blast
    with True day step show ?thesis by simp
  next
    case False
    with step show ?thesis by simp
  qed
qed

lemma find_get_weather:
  "find (\<lambda>d. tool_name d = ascii ''get_weather'') registered_tools = Some get_weather_tool"
  by (simp add: registered_tools_def greet_tool_def calculator_tool_def get_time_tool_def
      geocode_tool_def get_weather_tool_def ascii_def)

lemma validate_forecast_days_in_range:
  "1 \<le> n \<Longrightarrow> n \<le> 16 \<Longrightarrow>
   validate_shape (inputSchema get_weather_tool)
     [(ascii ''latitude'', Num (Fin a)), (ascii ''longitude'', Num (Fin b)),
      (ascii ''forecast_days'', Num (Fin (of_int n)))] =
   Inr [(ascii ''latitude'', Num (Fin a)), (ascii ''longitude'', Num (Fin b)),
        (ascii ''forecast_days'', Num (Fin (of_int n)))]"
  by (simp add: get_weather_tool_def ascii_def List.map_filter_simps)

lemma validate_forecast_days_out_of_range:
  "n < 1 \<or> 16 < n \<Longrightarrow>
   validate_shape (inputSchema get_weather_tool)
     [(ascii ''latitude'', Num (Fin a)), (ascii ''longitude'', Num (Fin b)),
      (ascii ''forecast_days'', Num (Fin (of_int n)))] =
   Inl [(ascii ''forecast_days'', Out_of_range)]"
  by (auto simp: get_weather_tool_def ascii_def List.map_filter_simps)

lemma validate_forecast_days_omitted:
  "validate_shape (inputSchema get_weather_tool)
     [(ascii ''latitude'', Num (Fin a)), (ascii ''longitude'', Num (Fin b))] =
   Inr [(ascii ''latitude'', Num (Fin a)), (ascii ''longitude'', Num (Fin b)),
        (ascii ''forecast_days'', Num (Fin 7))]"
  by (simp add: get_weather_tool_def ascii_def List.map_filter_simps)

lemma call_get_weather_17:
  "call_tool registered_tools en w (ascii ''get_weather'')
     [(ascii ''latitude'', Num (Fin a)), (ascii ''longitude'', Num (Fin b)),
      (ascii ''forecast_days'', Num (Fin 17))] =
   (ErrorEnvelope (ValidationError [(ascii ''forecast_days'', Out_of_range)]), [])"
  using validate_forecast_days_out_of_range [of 17 a b]
  by (simp add: call_tool_def find_get_weather)

lemma get_weather_sends: "snd (get_weather en w latitude longitude argument) \<noteq> []"
  by (simp add: get_weather_def get_weather_try_def Let_def split: prod.splits sum.splits thrown.splits)

lemma get_weather_example_2:
  "get_weather example_engine (answering example_weather) (Fin 37) (Fin 127) (Some (Fin 2)) =
     (Inr \<lparr>content = [Text (example_report 2 2)],
           structuredContent = Some [Text (example_report 2 2)]\<rparr>,
      [Fetch (weather_url example_engine (Fin 37) (Fin 127) (Fin 2)) []])"
  by code_simp

lemma get_weather_example_1:
  "get_weather example_engine (answering example_weather) (Fin 37) (Fin 127) (Some (Fin 1)) =
     (Inr \<lparr>content = [Text (example_report 1 1)],
           structuredContent = Some [Text (example_report 1 1)]\<rparr>,
      [Fetch (weather_url example_engine (Fin 37) (Fin 127) (Fin 1)) []])"
  by code_simp

lemma get_weather_example_7:
  "get_weather example_engine (answering example_weather) (Fin 37) (Fin 127) (Some (Fin 7)) =
     (Inr \<lparr>content = [Text (example_report 7 3)],
           structuredContent = Some [Text (example_report 7 3)]\<rparr>,
      [Fetch (weather_url example_engine (Fin 37) (Fin 127) (Fin 7)) []])"
  by code_simp


text \<open>
  C10. For a whole number of forecast days from 1 to 16, whenever get_weather returns
  a result, the loop has pushed \<open>min forecast_days 3\<close> entries and the text of the result
  is the current weather, the forecast heading and one block for each of those
  entries, so \<open>min forecast_days 3\<close> blocks. When the reply's \<^verbatim>\<open>daily\<close> object holds the
  five arrays the loop reads, the loop does return, with that many entries. A forecast
  of one day has one entry and a forecast of two days has two.
\<close>

theorem forecast_entries_min:
  "(1 \<le> n \<and> n \<le> 16
    \<and> get_weather en w latitude longitude (Some (Fin (of_int n))) = (Inr result, requests) \<longrightarrow>
      (\<exists>response data daily days current blocks.
         fetch w (weather_url en latitude longitude (Fin (of_int n))) [] = Inr response
         \<and> json response = Inr data
         \<and> get_prop en data (ascii ''daily'') = Inr daily
         \<and> forecast_loop en daily (Fin (of_int n)) 0 [] = Inr days
         \<and> list_all2 (\<lambda>day block. forecast_text en day = Inr block) days blocks
         \<and> content result =
             [Text (current @
                    weather_text_forecast (number_to_string en (Fin (of_int n)))
                      (number_to_string en (Fin (of_int (min n 3)))) @
                    concat blocks)]
         \<and> length days = nat (min n 3)
         \<and> length blocks = nat (min n 3)))
   \<and> (1 \<le> n \<and> n \<le> 16
       \<and> map_of kvs (ascii ''time'') = Some (Arr dates)
       \<and> map_of kvs (ascii ''temperature_2m_max'') = Some (Arr maxs)
       \<and> map_of kvs (ascii ''temperature_2m_min'') = Some (Arr mins)
       \<and> map_of kvs (ascii ''precipitation_sum'') = Some (Arr amounts)
       \<and> map_of kvs (ascii ''weathercode'') = Some (Arr codes) \<longrightarrow>
         (\<exists>days. forecast_loop en (Obj kvs) (Fin (of_int n)) 0 [] = Inr days
                 \<and> length days = nat (min n 3)))
   \<and> (forecast_loop en daily (Fin 1) 0 [] = Inr one \<longrightarrow> length one = 1)
   \<and> (forecast_loop en daily (Fin 2) 0 [] = Inr two \<longrightarrow> length two = 2)"
proof (intro conjI impI)
  assume "1 \<le> n \<and> n \<le> 16
    \<and> get_weather en w latitude longitude (Some (Fin (of_int n))) = (Inr result, requests)"
  then show "\<exists>response data daily days current blocks.
         fetch w (weather_url en latitude longitude (Fin (of_int n))) [] = Inr response
         \<and> json response = Inr data
         \<and> get_prop en data (ascii ''daily'') = Inr daily
         \<and> forecast_loop en daily (Fin (of_int n)) 0 [] = Inr days
         \<and> list_all2 (\<lambda>day block. forecast_text en day = Inr block) days blocks
         \<and> content result =
             [Text (current @
                    weather_text_forecast (number_to_string en (Fin (of_int n)))
                      (number_to_string en (Fin (of_int (min n 3)))) @
                    concat blocks)]
         \<and> length days = nat (min n 3)
         \<and> length blocks = nat (min n 3)"
    using get_weather_entries_count [of en w latitude longitude "Some (Fin (of_int n))" result
        requests n]
    by simp
next
  assume a: "1 \<le> n \<and> n \<le> 16
       \<and> map_of kvs (ascii ''time'') = Some (Arr dates)
       \<and> map_of kvs (ascii ''temperature_2m_max'') = Some (Arr maxs)
       \<and> map_of kvs (ascii ''temperature_2m_min'') = Some (Arr mins)
       \<and> map_of kvs (ascii ''precipitation_sum'') = Some (Arr amounts)
       \<and> map_of kvs (ascii ''weathercode'') = Some (Arr codes)"
  then have "\<forall>i. \<exists>day. forecast_entry en (Obj kvs) i = Inr day"
    using forecast_entry_arrays [of kvs dates maxs mins amounts codes en] by blast
  from forecast_loop_succeeds [OF this, of n 0 "[]"] obtain days where
    days: "forecast_loop en (Obj kvs) (Fin (of_int n)) 0 [] = Inr days" by blast
  from forecast_loop_length [OF days] a have "length days = nat (min n 3)" by simp
  with days show "\<exists>days. forecast_loop en (Obj kvs) (Fin (of_int n)) 0 [] = Inr days
                 \<and> length days = nat (min n 3)" by blast
next
  assume "forecast_loop en daily (Fin 1) 0 [] = Inr one"
  then show "length one = 1"
    using forecast_loop_length [of en daily 1 0 "[]" one] by simp
next
  assume "forecast_loop en daily (Fin 2) 0 [] = Inr two"
  then show "length two = 2"
    using forecast_loop_length [of en daily 2 0 "[]" two] by simp
qed

theorem forecast_entries_min_witness:
  "(1::int) \<le> 2 \<and> (2::int) \<le> 16
   \<and> get_weather example_engine (answering example_weather) (Fin 37) (Fin 127)
        (Some (Fin 2)) =
       (Inr \<lparr>content = [Text (example_report 2 2)],
             structuredContent = Some [Text (example_report 2 2)]\<rparr>,
        [Fetch (weather_url example_engine (Fin 37) (Fin 127) (Fin 2)) []])
   \<and> (\<exists>days blocks.
         list_all2 (\<lambda>day block. forecast_text example_engine day = Inr block) days blocks
         \<and> length days = 2 \<and> length blocks = 2)
   \<and> get_weather example_engine (answering example_weather) (Fin 37) (Fin 127)
        (Some (Fin 1)) =
       (Inr \<lparr>content = [Text (example_report 1 1)],
             structuredContent = Some [Text (example_report 1 1)]\<rparr>,
        [Fetch (weather_url example_engine (Fin 37) (Fin 127) (Fin 1)) []])
   \<and> length (take 1 example_blocks) = 1 \<and> length (take 2 example_blocks) = 2
   \<and> map_of example_daily (ascii ''time'') =
       Some (Arr [Str (ascii ''2024-05-01''), Str (ascii ''2024-05-02''),
                  Str (ascii ''2024-05-03'')])
   \<and> (\<exists>days. forecast_loop example_engine (Obj example_daily) (Fin 2) 0 [] = Inr days
               \<and> length days = 2)"
proof -
  have "\<exists>days. forecast_loop example_engine (Obj example_daily) (Fin (of_int 2)) 0 [] = Inr days
               \<and> length days = nat (min 2 3)"
    by (rule forecast_entries_min
      [where n = 2 and en = example_engine and kvs = example_daily
         and dates = "[Str (ascii ''2024-05-01''), Str (ascii ''2024-05-02''),
                       Str (ascii ''2024-05-03'')]"
         and maxs = "[Num (Fin 22), Num (Fin 23), Num (Fin 24)]"
         and mins = "[Num (Fin 11), Num (Fin 12), Num (Fin 13)]"
         and amounts = "[Num (Fin 0), Num (Fin 2), Num (Fin 0)]"
         and codes = "[Num (Fin 0), Num (Fin 61), Num (Fin 3)]",
       THEN conjunct2, THEN conjunct1, THEN mp])
      (simp add: example_daily_def ascii_def)
  then have loop: "\<exists>days. forecast_loop example_engine (Obj example_daily) (Fin 2) 0 [] = Inr days
               \<and> length days = 2"
    by simp
  note inst =
    forecast_entries_min
      [where n = 2 and en = example_engine and w = "answering example_weather"
         and latitude = "Fin 37" and longitude = "Fin 127"
         and result = "\<lparr>content = [Text (example_report 2 2)],
             structuredContent = Some [Text (example_report 2 2)]\<rparr>"
         and requests = "[Fetch (weather_url example_engine (Fin 37) (Fin 127) (Fin 2)) []]",
       THEN conjunct1]
  have "\<exists>response data daily days current blocks.
         fetch (answering example_weather)
           (weather_url example_engine (Fin 37) (Fin 127) (Fin (of_int 2))) [] = Inr response
         \<and> json response = Inr data
         \<and> get_prop example_engine data (ascii ''daily'') = Inr daily
         \<and> forecast_loop example_engine daily (Fin (of_int 2)) 0 [] = Inr days
         \<and> list_all2 (\<lambda>day block. forecast_text example_engine day = Inr block) days blocks
         \<and> content \<lparr>content = [Text (example_report 2 2)],
             structuredContent = Some [Text (example_report 2 2)]\<rparr> =
             [Text (current @
                    weather_text_forecast (number_to_string example_engine (Fin (of_int 2)))
                      (number_to_string example_engine (Fin (of_int (min 2 3)))) @
                    concat blocks)]
         \<and> length days = nat (min 2 3)
         \<and> length blocks = nat (min 2 3)"
    by (rule inst [THEN mp]) (simp add: get_weather_example_2)
  then have "\<exists>days blocks.
         list_all2 (\<lambda>day block. forecast_text example_engine day = Inr block) days blocks
         \<and> length days = 2 \<and> length blocks = 2"
    by auto
  then show ?thesis
    using get_weather_example_2 get_weather_example_1 loop
    by (simp add: example_blocks_def example_daily_def ascii_def)
qed

lemma call_get_weather_valid:
  assumes "1 \<le> n" and "n \<le> 16"
  shows "call_tool registered_tools en w (ascii ''get_weather'')
     [(ascii ''latitude'', Num (Fin a)), (ascii ''longitude'', Num (Fin b)),
      (ascii ''forecast_days'', Num (Fin (of_int n)))] =
   (case get_weather en w (Fin a) (Fin b) (Some (Fin (of_int n))) of
      (Inl (Error message), requests) \<Rightarrow> (ErrorEnvelope (ExecutionError message), requests)
    | (Inl NonError, requests) \<Rightarrow> (ErrorEnvelope (ExecutionError []), requests)
    | (Inr result, requests) \<Rightarrow> (ResponseEnvelope result, requests))"
  using validate_forecast_days_in_range [OF assms, of a b]
  by (simp add: call_tool_def find_get_weather)
     (simp add: get_weather_tool_def number_argument_def optional_number_argument_def ascii_def
        split: prod.splits sum.splits thrown.splits)

text \<open>
  C4. A call of get_weather for seven forecast days, given or taken from the
  parameter's default, that returns a result has pushed three entries and shows three
  blocks after the forecast heading. Every whole number of forecast days from 1 to
  16, and so 16 itself, passes validation, and the call then runs the handler with
  that number; 17 is out of range, and the call is answered with the validation error
  and without any request, whereas the handler, once it runs, always sends one.
\<close>

theorem forecast_days_seven:
  "((case argument of None \<Rightarrow> Fin 7 | Some m \<Rightarrow> m) = Fin 7
    \<and> get_weather en w latitude longitude argument = (Inr result, requests) \<longrightarrow>
      (\<exists>response data daily days current blocks.
         fetch w (weather_url en latitude longitude (Fin 7)) [] = Inr response
         \<and> json response = Inr data
         \<and> get_prop en data (ascii ''daily'') = Inr daily
         \<and> forecast_loop en daily (Fin 7) 0 [] = Inr days
         \<and> list_all2 (\<lambda>day block. forecast_text en day = Inr block) days blocks
         \<and> content result =
             [Text (current @
                    weather_text_forecast (number_to_string en (Fin 7))
                      (number_to_string en (Fin 3)) @
                    concat blocks)]
         \<and> length days = 3
         \<and> length blocks = 3))
   \<and> (1 \<le> n \<and> n \<le> 16 \<longrightarrow>
        validate_shape (inputSchema get_weather_tool)
          [(ascii ''latitude'', Num (Fin a)), (ascii ''longitude'', Num (Fin b)),
           (ascii ''forecast_days'', Num (Fin (of_int n)))] =
        Inr [(ascii ''latitude'', Num (Fin a)), (ascii ''longitude'', Num (Fin b)),
             (ascii ''forecast_days'', Num (Fin (of_int n)))]
        \<and> call_tool registered_tools en w (ascii ''get_weather'')
            [(ascii ''latitude'', Num (Fin a)), (ascii ''longitude'', Num (Fin b)),
             (ascii ''forecast_days'', Num (Fin (of_int n)))] =
           (case get_weather en w (Fin a) (Fin b) (Some (Fin (of_int n))) of
              (Inl (Error message), requests) \<Rightarrow>
                (ErrorEnvelope (ExecutionError message), requests)
            | (Inl NonError, requests) \<Rightarrow> (ErrorEnvelope (ExecutionError []), requests)
            | (Inr result, requests) \<Rightarrow> (ResponseEnvelope result, requests)))
   \<and> validate_shape (inputSchema get_weather_tool)
        [(ascii ''latitude'', Num (Fin a)), (ascii ''longitude'', Num (Fin b)),
         (ascii ''forecast_days'', Num (Fin 16))] =
      Inr [(ascii ''latitude'', Num (Fin a)), (ascii ''longitude'', Num (Fin b)),
           (ascii ''forecast_days'', Num (Fin 16))]
   \<and> validate_shape (inputSchema get_weather_tool)
        [(ascii ''latitude'', Num (Fin a)), (ascii ''longitude'', Num (Fin b)),
         (ascii ''forecast_days'', Num (Fin 17))] =
      Inl [(ascii ''forecast_days'', Out_of_range)]
   \<and> call_tool registered_tools en w (ascii ''get_weather'')
        [(ascii ''latitude'', Num (Fin a)), (ascii ''longitude'', Num (Fin b)),
         (ascii ''forecast_days'', Num (Fin 17))] =
      (ErrorEnvelope (ValidationError [(ascii ''forecast_days'', Out_of_range)]), [])
   \<and> snd (get_weather en w latitude longitude argument) \<noteq> []"
proof (intro conjI impI)
  assume "(case argument of None \<Rightarrow> Fin 7 | Some m \<Rightarrow> m) = Fin 7
    \<and> get_weather en w latitude longitude argument = (Inr result, requests)"
  then show "\<exists>response data daily days current blocks.
         fetch w (weather_url en latitude longitude (Fin 7)) [] = Inr response
         \<and> json response = Inr data
         \<and> get_prop en data (ascii ''daily'') = Inr daily
         \<and> forecast_loop en daily (Fin 7) 0 [] = Inr days
         \<and> list_all2 (\<lambda>day block. forecast_text en day = Inr block) days blocks
         \<and> content result =
             [Text (current @
                    weather_text_forecast (number_to_string en (Fin 7))
                      (number_to_string en (Fin 3)) @
                    concat blocks)]
         \<and> length days = 3
         \<and> length blocks = 3"
    using get_weather_entries_count [of en w latitude longitude argument result requests 7]
    by simp
next
  assume "1 \<le> n \<and> n \<le> 16"
  then show "validate_shape (inputSchema get_weather_tool)
          [(ascii ''latitude'', Num (Fin a)), (ascii ''longitude'', Num (Fin b)),
           (ascii ''forecast_days'', Num (Fin (of_int n)))] =
        Inr [(ascii ''latitude'', Num (Fin a)), (ascii ''longitude'', Num (Fin b)),
             (ascii ''forecast_days'', Num (Fin (of_int n)))]"
    by (simp add: validate_forecast_days_in_range)
next
  assume "1 \<le> n \<and> n \<le> 16"
  then show "call_tool registered_tools en w (ascii ''get_weather'')
            [(ascii ''latitude'', Num (Fin a)), (ascii ''longitude'', Num (Fin b)),
             (ascii ''forecast_days'', Num (Fin (of_int n)))] =
           (case get_weather en w (Fin a) (Fin b) (Some (Fin (of_int n))) of
              (Inl (Error message), requests) \<Rightarrow>
                (ErrorEnvelope (ExecutionError message), requests)
            | (Inl NonError, requests) \<Rightarrow> (ErrorEnvelope (ExecutionError []), requests)
            | (Inr result, requests) \<Rightarrow> (ResponseEnvelope result, requests))"
    by (simp add: call_get_weather_valid)
next
  show "validate_shape (inputSchema get_weather_tool)
        [(ascii ''latitude'', Num (Fin a)), (ascii ''longitude'', Num (Fin b)),
         (ascii ''forecast_days'', Num (Fin 16))] =
      Inr [(ascii ''latitude'', Num (Fin a)), (ascii ''longitude'', Num (Fin b)),
           (ascii ''forecast_days'', Num (Fin 16))]"
    using validate_forecast_days_in_range [of 16 a b] by simp
next
  show "validate_shape (inputSchema get_weather_tool)
        [(ascii ''latitude'', Num (Fin a)), (ascii ''longitude'', Num (Fin b)),
         (ascii ''forecast_days'', Num (Fin 17))] =
      Inl [(ascii ''forecast_days'', Out_of_range)]"
    using validate_forecast_days_out_of_range [of 17 a b] by simp
next
  show "call_tool registered_tools en w (ascii ''get_weather'')
        [(ascii ''latitude'', Num (Fin a)), (ascii ''longitude'', Num (Fin b)),
         (ascii ''forecast_days'', Num (Fin 17))] =
      (ErrorEnvelope (ValidationError [(ascii ''forecast_days'', Out_of_range)]), [])"
    by (rule call_get_weather_17)
next
  show "snd (get_weather en w latitude longitude argument) \<noteq> []"
    by (rule get_weather_sends)
qed

theorem forecast_days_seven_witness:
  "get_weather example_engine (answering example_weather) (Fin 37) (Fin 127) (Some (Fin 7)) =
     (Inr \<lparr>content = [Text (example_report 7 3)],
           structuredContent = Some [Text (example_report 7 3)]\<rparr>,
      [Fetch (weather_url example_engine (Fin 37) (Fin 127) (Fin 7)) []])
   \<and> (\<exists>days blocks.
         list_all2 (\<lambda>day block. forecast_text example_engine day = Inr block) days blocks
         \<and> length days = 3 \<and> length blocks = 3)
   \<and> length (take 3 example_blocks) = 3
   \<and> (1::int) \<le> 16 \<and> (16::int) \<le> 16
   \<and> validate_shape (inputSchema get_weather_tool)
        [(ascii ''latitude'', Num (Fin 37)), (ascii ''longitude'', Num (Fin 127)),
         (ascii ''forecast_days'', Num (Fin 16))] =
      Inr [(ascii ''latitude'', Num (Fin 37)), (ascii ''longitude'', Num (Fin 127)),
           (ascii ''forecast_days'', Num (Fin 16))]"
proof -
  note inst =
    forecast_days_seven
      [where argument = "Some (Fin 7)" and en = example_engine
         and w = "answering example_weather"
         and latitude = "Fin 37" and longitude = "Fin 127"
         and result = "\<lparr>content = [Text (example_report 7 3)],
             structuredContent = Some [Text (example_report 7 3)]\<rparr>"
         and requests = "[Fetch (weather_url example_engine (Fin 37) (Fin 127) (Fin 7)) []]"
         and n = 16 and a = 37 and b = 127]
  have "\<exists>response data daily days current blocks.
         fetch (answering example_weather)
           (weather_url example_engine (Fin 37) (Fin 127) (Fin 7)) [] = Inr response
         \<and> json response = Inr data
         \<and> get_prop example_engine data (ascii ''daily'') = Inr daily
         \<and> forecast_loop example_engine daily (Fin 7) 0 [] = Inr days
         \<and> list_all2 (\<lambda>day block. forecast_text example_engine day = Inr block) days blocks
         \<and> content \<lparr>content = [Text (example_report 7 3)],
             structuredContent = Some [Text (example_report 7 3)]\<rparr> =
             [Text (current @
                    weather_text_forecast (number_to_string example_engine (Fin 7))
                      (number_to_string example_engine (Fin 3)) @
                    concat blocks)]
         \<and> length days = 3
         \<and> length blocks = 3"
    by (rule inst [THEN conjunct1, THEN mp]) (simp add: get_weather_example_7)
  then have "\<exists>days blocks.
         list_all2 (\<lambda>day block. forecast_text example_engine day = Inr block) days blocks
         \<and> length days = 3 \<and> length blocks = 3"
    by auto
  moreover have "validate_shape (inputSchema get_weather_tool)
        [(ascii ''latitude'', Num (Fin 37)), (ascii ''longitude'', Num (Fin 127)),
         (ascii ''forecast_days'', Num (Fin (of_int 16)))] =
      Inr [(ascii ''latitude'', Num (Fin 37)), (ascii ''longitude'', Num (Fin 127)),
           (ascii ''forecast_days'', Num (Fin (of_int 16)))]"
    using inst [THEN conjunct2, THEN conjunct1] by simp
  ultimately show ?thesis
    using get_weather_example_7 by (simp add: example_blocks_def)
qed

subsection \<open>The first result of the geocoder\<close>

lemma geocode_caught:
  "geocode en w query =
     (case geocode_try en w query of
        (Inl (Error message), requests) \<Rightarrow> (Inl (Error (geocode_error message)), requests)
      | (Inl NonError, requests) \<Rightarrow> (Inl (Error geocode_error_unknown), requests)
      | (Inr r, requests) \<Rightarrow> (Inr r, requests))"
  by (simp add: geocode_def)

lemma geocode_try_ok:
  "fetch w (geocode_url en query) geocode_headers = Inr response \<Longrightarrow> ok response
   \<Longrightarrow> json response = Inr data
   \<Longrightarrow> geocode_try en w query =
       (geocode_data en query data, [Fetch (geocode_url en query) geocode_headers])"
  by (simp add: geocode_try_def and_then_def)

lemma geocode_data_empty:
  "geocode_data en query (Arr []) = Inl (Error (address_not_found query))"
  by (simp add: geocode_data_def)

lemma geocode_empty:
  assumes "fetch w (geocode_url en query) geocode_headers = Inr response" "ok response"
    "json response = Inr (Arr [])"
  shows "geocode en w query =
     (Inl (Error (geocode_error (address_not_found query))),
      [Fetch (geocode_url en query) geocode_headers])"
  by (simp add: geocode_caught geocode_try_ok [OF assms] geocode_data_empty)

lemma geocode_data_first:
  assumes "geocode_data en query data = Inr r"
  shows "\<exists>result. get_index en data 0 = Inr result \<and> result \<noteq> Undefined \<and> result \<noteq> Null"
proof -
  from assms obtain result v where
    "get_index en data 0 = Inr result" "get_prop en result (ascii ''lat'') = Inr v"
    by (auto simp: geocode_data_def and_then_Inr_iff split: if_splits)
  then show ?thesis by (cases result) auto
qed

lemma geocode_success_first:
  assumes "geocode en w query = (Inr r, requests)"
  shows "\<exists>response data result.
           fetch w (geocode_url en query) geocode_headers = Inr response \<and> ok response
           \<and> json response = Inr data
           \<and> get_index en data 0 = Inr result \<and> result \<noteq> Undefined \<and> result \<noteq> Null
           \<and> data \<noteq> Arr []"
proof -
  from assms obtain response data where
    *: "fetch w (geocode_url en query) geocode_headers = Inr response" "ok response"
       "json response = Inr data" "geocode_data en query data = Inr r"
    by (auto simp: geocode_def geocode_try_def and_then_Inr_iff
        split: sum.splits thrown.splits if_splits)
  from *(4) have "data \<noteq> Arr []" by (auto simp: geocode_data_empty)
  with * geocode_data_first [OF *(4)] show ?thesis by blast
qed

lemma geocode_data_object:
  assumes "to_string en (case map_of kvs (ascii ''lat'') of Some v \<Rightarrow> v | None \<Rightarrow> Undefined)
           = Inr la"
    and "to_string en (case map_of kvs (ascii ''lon'') of Some v \<Rightarrow> v | None \<Rightarrow> Undefined)
           = Inr lo"
    and "name = (case map_of kvs (ascii ''display_name'') of Some v \<Rightarrow> v | None \<Rightarrow> Undefined)"
    and "(if truthy name then to_string en name else Inr query) = Inr shown"
  shows "geocode_data en query (Arr (Obj kvs # rest)) =
     Inr \<lparr>content =
            [Text (geocode_resultText shown
                     (number_to_string en (parseFloat en la))
                     (number_to_string en (parseFloat en lo)))],
          structuredContent =
            Some [Text (geocode_resultText shown
                     (number_to_string en (parseFloat en la))
                     (number_to_string en (parseFloat en lo)))]\<rparr>"
  using assms
  by (auto simp: geocode_data_def and_then_def Let_def split: if_splits)

lemma geocode_object:
  assumes "fetch w (geocode_url en query) geocode_headers = Inr response" "ok response"
    "json response = Inr (Arr (Obj kvs # rest))"
    and "to_string en (case map_of kvs (ascii ''lat'') of Some v \<Rightarrow> v | None \<Rightarrow> Undefined)
           = Inr la"
    and "to_string en (case map_of kvs (ascii ''lon'') of Some v \<Rightarrow> v | None \<Rightarrow> Undefined)
           = Inr lo"
    and "name = (case map_of kvs (ascii ''display_name'') of Some v \<Rightarrow> v | None \<Rightarrow> Undefined)"
    and "(if truthy name then to_string en name else Inr query) = Inr shown"
  shows "geocode en w query =
     (Inr \<lparr>content =
            [Text (geocode_resultText shown
                     (number_to_string en (parseFloat en la))
                     (number_to_string en (parseFloat en lo)))],
          structuredContent =
            Some [Text (geocode_resultText shown
                     (number_to_string en (parseFloat en la))
                     (number_to_string en (parseFloat en lo)))]\<rparr>,
      [Fetch (geocode_url en query) geocode_headers])"
  by (simp add: geocode_caught geocode_try_ok [OF assms(1-3)]
      geocode_data_object [OF assms(4-7)])

lemma answering_fetch:
  "fetch (answering data) url headers =
     Inr \<lparr>ok = True, status = 200, statusText = ascii ''OK'', json = Inr data\<rparr>"
  by (simp add: answering_def)

lemma example_numbers:
  "number_to_string example_engine (parseFloat example_engine (ascii ''37.5'')) = ascii ''37.5''"
  "number_to_string example_engine (parseFloat example_engine (ascii ''127'')) = ascii ''127''"
  by code_simp+

lemma geocode_example:
  assumes "dn = [] \<and> shown = query \<or> dn \<noteq> [] \<and> shown = dn"
  shows "geocode example_engine
     (answering (Arr [Obj [(ascii ''lat'', Str (ascii ''37.5'')),
                           (ascii ''lon'', Str (ascii ''127'')),
                           (ascii ''display_name'', Str dn)]]))
     query =
   (Inr \<lparr>content = [Text (geocode_resultText shown (ascii ''37.5'') (ascii ''127''))],
         structuredContent =
          Some [Text (geocode_resultText shown (ascii ''37.5'') (ascii ''127''))]\<rparr>,
    [Fetch (geocode_url example_engine query) geocode_headers])"
proof -
  let ?kvs = "[(ascii ''lat'', Str (ascii ''37.5'')), (ascii ''lon'', Str (ascii ''127'')),
               (ascii ''display_name'', Str dn)]"
  have lat: "to_string example_engine
      (case map_of ?kvs (ascii ''lat'') of Some v \<Rightarrow> v | None \<Rightarrow> Undefined) =
      Inr (ascii ''37.5'')"
    by (simp add: ascii_def)
  have lon: "to_string example_engine
      (case map_of ?kvs (ascii ''lon'') of Some v \<Rightarrow> v | None \<Rightarrow> Undefined) =
      Inr (ascii ''127'')"
    by (simp add: ascii_def)
  have name: "Str dn =
      (case map_of ?kvs (ascii ''display_name'') of Some v \<Rightarrow> v | None \<Rightarrow> Undefined)"
    by (simp add: ascii_def)
  have shown: "(if truthy (Str dn) then to_string example_engine (Str dn) else Inr query) =
      Inr shown"
    using assms by auto
  have reply: "fetch (answering (Arr [Obj ?kvs])) (geocode_url example_engine query)
      geocode_headers =
      Inr \<lparr>ok = True, status = 200, statusText = ascii ''OK'',
           json = Inr (Arr (Obj ?kvs # []))\<rparr>"
    by (rule answering_fetch)
  from geocode_object [OF reply _ _ lat lon name shown]
  show ?thesis
    by (simp add: example_numbers)
qed

lemma geocode_example_unnamed:
  "geocode example_engine
     (answering (Arr [Obj [(ascii ''lat'', Str (ascii ''37.5'')),
                           (ascii ''lon'', Str (ascii ''127'')),
                           (ascii ''display_name'', Str [])]]))
     (ascii ''Seoul'') =
   (Inr \<lparr>content =
          [Text (geocode_resultText (ascii ''Seoul'') (ascii ''37.5'') (ascii ''127''))],
         structuredContent =
          Some [Text (geocode_resultText (ascii ''Seoul'') (ascii ''37.5'') (ascii ''127''))]\<rparr>,
    [Fetch (geocode_url example_engine (ascii ''Seoul'')) geocode_headers])"
  by (rule geocode_example) simp

lemma geocode_example_named:
  "geocode example_engine (answering (Arr [example_place])) (ascii ''Seoul Station'') =
   (Inr \<lparr>content =
          [Text (geocode_resultText (ascii ''Seoul'') (ascii ''37.5'') (ascii ''127''))],
         structuredContent =
          Some [Text (geocode_resultText (ascii ''Seoul'') (ascii ''37.5'') (ascii ''127''))]\<rparr>,
    [Fetch (geocode_url example_engine (ascii ''Seoul Station'')) geocode_headers])"
  unfolding example_place_def
  by (rule geocode_example) (simp add: ascii_def)

lemma geocode_texts_differ:
  "geocode_resultText (ascii ''Seoul'') lat lon \<noteq> geocode_resultText [] lat lon"
  by (simp add: geocode_resultText_def ascii_def)

lemma geocode_place:
  assumes "fetch w (geocode_url en query) geocode_headers = Inr response" "ok response"
    "json response = Inr (Arr (Obj kvs # rest))"
    and "map_of kvs (ascii ''lat'') = Some (Str la)"
    and "map_of kvs (ascii ''lon'') = Some (Str lo)"
    and "map_of kvs (ascii ''display_name'') = Some (Str dn)
         \<or> map_of kvs (ascii ''display_name'') = None \<and> dn = []"
  shows "geocode en w query =
     (Inr \<lparr>content =
            [Text (geocode_resultText (if dn \<noteq> [] then dn else query)
                     (number_to_string en (parseFloat en la))
                     (number_to_string en (parseFloat en lo)))],
          structuredContent =
            Some [Text (geocode_resultText (if dn \<noteq> [] then dn else query)
                     (number_to_string en (parseFloat en la))
                     (number_to_string en (parseFloat en lo)))]\<rparr>,
      [Fetch (geocode_url en query) geocode_headers])"
  using assms(4-6)
  by (intro geocode_object [OF assms(1-3), where
        name = "case map_of kvs (ascii ''display_name'') of Some v \<Rightarrow> v | None \<Rightarrow> Undefined"])
     auto


text \<open>
  C7. A first result does not always have its display name reported. The handler
  reads \<^verbatim>\<open>result.display_name || query\<close>, so when the first result's display
  name is the empty string the text block reports the query in its place: for the
  query \<^verbatim>\<open>Seoul\<close> and a first result with latitude 37.5, longitude 127 and an empty
  display name, geocode succeeds and the text names \<^verbatim>\<open>Seoul\<close>, which is not the
  text that would report the (empty) display name.
\<close>

theorem geocode_display_name_counterexample:
  "geocode example_engine
     (answering (Arr [Obj [(ascii ''lat'', Str (ascii ''37.5'')),
                           (ascii ''lon'', Str (ascii ''127'')),
                           (ascii ''display_name'', Str [])]]))
     (ascii ''Seoul'') =
   (Inr \<lparr>content =
          [Text (geocode_resultText (ascii ''Seoul'') (ascii ''37.5'') (ascii ''127''))],
         structuredContent =
          Some [Text (geocode_resultText (ascii ''Seoul'') (ascii ''37.5'') (ascii ''127''))]\<rparr>,
    [Fetch (geocode_url example_engine (ascii ''Seoul'')) geocode_headers])
   \<and> geocode_resultText (ascii ''Seoul'') (ascii ''37.5'') (ascii ''127'') \<noteq>
       geocode_resultText [] (ascii ''37.5'') (ascii ''127'')"
  using geocode_example_unnamed geocode_texts_differ by simp


text \<open>
  C7. When the lookup answers with an empty array, geocode throws the error whose
  message is the geocoding prefix followed by the address-not-found message for the
  query. Whenever geocode returns a result, the lookup answered with a non-empty
  value whose first element exists and is neither \<^verbatim>\<open>undefined\<close> nor \<^verbatim>\<open>null\<close>. When the
  first element is an object with strings for \<^verbatim>\<open>lat\<close> and \<^verbatim>\<open>lon\<close>, geocode returns one
  text block reporting the parsed latitude and longitude of that element and its
  display name, or the query when the display name is empty or absent.
\<close>

theorem geocode_first_result:
  "(fetch w (geocode_url en query) geocode_headers = Inr response \<and> ok response
    \<and> json response = Inr (Arr []) \<longrightarrow>
      geocode en w query =
        (Inl (Error (geocode_error (address_not_found query))),
         [Fetch (geocode_url en query) geocode_headers]))
   \<and> (geocode en w query = (Inr r, requests) \<longrightarrow>
        (\<exists>answer data result.
           fetch w (geocode_url en query) geocode_headers = Inr answer \<and> ok answer
           \<and> json answer = Inr data
           \<and> get_index en data 0 = Inr result \<and> result \<noteq> Undefined \<and> result \<noteq> Null
           \<and> data \<noteq> Arr []))
   \<and> (fetch w (geocode_url en query) geocode_headers = Inr response \<and> ok response
       \<and> json response = Inr (Arr (Obj kvs # rest))
       \<and> map_of kvs (ascii ''lat'') = Some (Str la)
       \<and> map_of kvs (ascii ''lon'') = Some (Str lo)
       \<and> (map_of kvs (ascii ''display_name'') = Some (Str dn)
            \<or> map_of kvs (ascii ''display_name'') = None \<and> dn = []) \<longrightarrow>
         geocode en w query =
           (Inr \<lparr>content =
                  [Text (geocode_resultText (if dn \<noteq> [] then dn else query)
                           (number_to_string en (parseFloat en la))
                           (number_to_string en (parseFloat en lo)))],
                structuredContent =
                  Some [Text (geocode_resultText (if dn \<noteq> [] then dn else query)
                           (number_to_string en (parseFloat en la))
                           (number_to_string en (parseFloat en lo)))]\<rparr>,
            [Fetch (geocode_url en query) geocode_headers]))"
  using geocode_empty [of w en query response] geocode_success_first [of en w query r requests]
    geocode_place [of w en query response kvs rest la lo dn]
  by blast

theorem geocode_first_result_witness:
  "fetch (answering (Arr [])) (geocode_url example_engine (ascii ''Atlantis'')) geocode_headers =
     Inr \<lparr>ok = True, status = 200, statusText = ascii ''OK'', json = Inr (Arr [])\<rparr>
   \<and> geocode example_engine (answering (Arr [])) (ascii ''Atlantis'') =
       (Inl (Error (geocode_error (address_not_found (ascii ''Atlantis'')))),
        [Fetch (geocode_url example_engine (ascii ''Atlantis'')) geocode_headers])
   \<and> geocode example_engine (answering (Arr [example_place])) (ascii ''Seoul Station'') =
       (Inr \<lparr>content =
              [Text (geocode_resultText (ascii ''Seoul'') (ascii ''37.5'') (ascii ''127''))],
             structuredContent =
              Some [Text (geocode_resultText (ascii ''Seoul'') (ascii ''37.5'')
                            (ascii ''127''))]\<rparr>,
        [Fetch (geocode_url example_engine (ascii ''Seoul Station'')) geocode_headers])
   \<and> get_index example_engine (Arr [example_place]) 0 = Inr example_place
   \<and> example_place \<noteq> Undefined \<and> example_place \<noteq> Null"
proof -
  have "geocode example_engine (answering (Arr [])) (ascii ''Atlantis'') =
       (Inl (Error (geocode_error (address_not_found (ascii ''Atlantis'')))),
        [Fetch (geocode_url example_engine (ascii ''Atlantis'')) geocode_headers])"
    by (rule geocode_first_result
        [where w = "answering (Arr [])" and en = example_engine and query = "ascii ''Atlantis''"
           and response = "\<lparr>ok = True, status = 200, statusText = ascii ''OK'',
                            json = Inr (Arr [])\<rparr>",
         THEN conjunct1, THEN mp])
       (simp add: answering_fetch)
  moreover have "geocode example_engine (answering (Arr [example_place]))
       (ascii ''Seoul Station'') =
       (Inr \<lparr>content =
              [Text (geocode_resultText (if ascii ''Seoul'' \<noteq> [] then ascii ''Seoul''
                                         else ascii ''Seoul Station'')
                       (number_to_string example_engine
                          (parseFloat example_engine (ascii ''37.5'')))
                       (number_to_string example_engine
                          (parseFloat example_engine (ascii ''127''))))],
             structuredContent =
              Some [Text (geocode_resultText (if ascii ''Seoul'' \<noteq> [] then ascii ''Seoul''
                                         else ascii ''Seoul Station'')
                       (number_to_string example_engine
                          (parseFloat example_engine (ascii ''37.5'')))
                       (number_to_string example_engine
                          (parseFloat example_engine (ascii ''127''))))]\<rparr>,
        [Fetch (geocode_url example_engine (ascii ''Seoul Station'')) geocode_headers])"
    by (rule geocode_first_result
        [where w = "answering (Arr [example_place])" and en = example_engine
           and query = "ascii ''Seoul Station''"
           and response = "\<lparr>ok = True, status = 200, statusText = ascii ''OK'',
                            json = Inr (Arr [example_place])\<rparr>"
           and kvs = "[(ascii ''lat'', Str (ascii ''37.5'')), (ascii ''lon'', Str (ascii ''127'')),
                       (ascii ''display_name'', Str (ascii ''Seoul''))]"
           and rest = "[]" and la = "ascii ''37.5''" and lo = "ascii ''127''"
           and dn = "ascii ''Seoul''",
         THEN conjunct2, THEN conjunct2, THEN mp])
       (simp add: answering_fetch example_place_def, simp add: ascii_def)
  ultimately show ?thesis
    by (simp add: answering_fetch example_numbers example_place_def) (simp add: ascii_def)
qed

subsection \<open>Errors thrown by the handlers\<close>

lemma get_weather_caught:
  "get_weather en w latitude longitude argument =
     (case get_weather_try en w latitude longitude argument of
        (Inl (Error message), requests) \<Rightarrow> (Inl (Error (weather_error message)), requests)
      | (Inl NonError, requests) \<Rightarrow> (Inl (Error weather_error_unknown), requests)
      | (Inr r, requests) \<Rightarrow> (Inr r, requests))"
  by (simp add: get_weather_def)

lemma generate_image_caught:
  "generate_image en w prompt =
     (case generate_image_try en w prompt of
        (Inl (Error message), requests) \<Rightarrow> (Inl (Error (image_error message)), requests)
      | (Inl NonError, requests) \<Rightarrow> (Inl (Error image_error_unknown), requests)
      | (Inr r, requests) \<Rightarrow> (Inr r, requests))"
  by (simp add: generate_image_def)

lemma geocode_fetch_failed:
  "fetch w (geocode_url en query) geocode_headers = Inl (Error cause) \<Longrightarrow>
     geocode en w query =
       (Inl (Error (geocode_error cause)), [Fetch (geocode_url en query) geocode_headers])"
  by (simp add: geocode_caught geocode_try_def)

lemma geocode_not_ok:
  "fetch w (geocode_url en query) geocode_headers = Inr response \<Longrightarrow> \<not> ok response \<Longrightarrow>
     geocode en w query =
       (Inl (Error (geocode_error
                      (api_request_failed (digits (status response)) (statusText response)))),
        [Fetch (geocode_url en query) geocode_headers])"
  by (simp add: geocode_caught geocode_try_def)

lemma get_weather_fetch_failed:
  "fetch w (weather_url en latitude longitude
              (case argument of None \<Rightarrow> Fin 7 | Some n \<Rightarrow> n)) [] = Inl (Error cause) \<Longrightarrow>
     get_weather en w latitude longitude argument =
       (Inl (Error (weather_error cause)),
        [Fetch (weather_url en latitude longitude
                  (case argument of None \<Rightarrow> Fin 7 | Some n \<Rightarrow> n)) []])"
  by (simp add: get_weather_caught get_weather_try_def Let_def)

lemma get_weather_not_ok:
  "fetch w (weather_url en latitude longitude
              (case argument of None \<Rightarrow> Fin 7 | Some n \<Rightarrow> n)) [] = Inr response \<Longrightarrow>
   \<not> ok response \<Longrightarrow>
     get_weather en w latitude longitude argument =
       (Inl (Error (weather_error
                      (api_request_failed (digits (status response)) (statusText response)))),
        [Fetch (weather_url en latitude longitude
                  (case argument of None \<Rightarrow> Fin 7 | Some n \<Rightarrow> n)) []])"
  by (simp add: get_weather_caught get_weather_try_def Let_def)

lemma generate_image_service_failed:
  "HF_TOKEN w \<noteq> [] \<Longrightarrow> textToImage w (HF_TOKEN w) flux_model prompt = Inl (Error cause) \<Longrightarrow>
     generate_image en w prompt =
       (Inl (Error (image_error cause)), [TextToImage (HF_TOKEN w) flux_model prompt])"
  by (simp add: generate_image_caught generate_image_try_def)

lemma error_prefixes:
  "geocode_error cause = geocode_error [] @ cause"
  "weather_error cause = weather_error [] @ cause"
  "image_error cause = image_error [] @ cause"
  by (simp_all add: geocode_error_def weather_error_def image_error_def)

lemma get_time_caught:
  "get_time_try w timezone = Inl e \<Longrightarrow>
     get_time w timezone = Inl (Error (invalid_timezone timezone))"
  by (simp add: get_time_def)

lemma get_time_formatter_failed:
  "Intl_DateTimeFormat w timezone = Inl e \<Longrightarrow>
     get_time w timezone = Inl (Error (invalid_timezone timezone))"
  by (simp add: get_time_def get_time_try_def)

lemma calculator_zero_divisor:
  "calculator en number1 (Fin 0) Divide = Inl (Error division_by_zero)"
  by (simp add: calculator_def calculator_switch_def)

lemma cause_not_in_invalid_timezone:
  "\<not> sublist (ascii ''Invalid time zone specified: Mars/Phobos'')
       (invalid_timezone (ascii ''Mars/Phobos''))"
proof
  assume "sublist (ascii ''Invalid time zone specified: Mars/Phobos'')
            (invalid_timezone (ascii ''Mars/Phobos''))"
  then have "set (ascii ''Invalid time zone specified: Mars/Phobos'')
               \<subseteq> set (invalid_timezone (ascii ''Mars/Phobos''))"
    by (rule set_mono_sublist)
  moreover have "(0x49 :: 16 word) \<in> set (ascii ''Invalid time zone specified: Mars/Phobos'')"
    by (simp add: ascii_def)
  ultimately have "(0x49 :: 16 word) \<in> set (invalid_timezone (ascii ''Mars/Phobos''))"
    by blast
  then show False
    by (simp add: invalid_timezone_def ascii_def)
qed

lemma unavailable_fetch:
  "fetch unavailable url headers =
     Inr \<lparr>ok = False, status = 503, statusText = ascii ''Service Unavailable'',
          json = Inl (Error (ascii ''Unexpected end of JSON input''))\<rparr>"
  by (simp add: unavailable_def)

lemma example_world_fetch:
  "fetch example_world url headers = Inl (Error (ascii ''fetch failed''))"
  by (simp add: example_world_def)

lemma digits_503: "digits 503 = ascii ''503''"
  by code_simp


text \<open>
  C5. The error of get_time does not carry its cause. The \<^verbatim>\<open>catch\<close> block of the handler
  throws a new error made from the time zone alone, whatever was caught: when the
  formatter rejects \<^verbatim>\<open>Mars/Phobos\<close> with "Invalid time zone specified: Mars/Phobos",
  get_time throws "not a valid time zone: Mars/Phobos" (in Korean), and the message
  of the cause occurs nowhere in that text.
\<close>

theorem get_time_cause_counterexample:
  "Intl_DateTimeFormat example_world (ascii ''Mars/Phobos'') =
     Inl (Error (ascii ''Invalid time zone specified: Mars/Phobos''))
   \<and> get_time example_world (ascii ''Mars/Phobos'') =
       Inl (Error (invalid_timezone (ascii ''Mars/Phobos'')))
   \<and> \<not> sublist (ascii ''Invalid time zone specified: Mars/Phobos'')
          (invalid_timezone (ascii ''Mars/Phobos''))"
proof -
  have "Intl_DateTimeFormat example_world (ascii ''Mars/Phobos'') =
     Inl (Error (ascii ''Invalid time zone specified: Mars/Phobos''))"
    by (simp add: example_world_def ascii_def)
  then show ?thesis
    using cause_not_in_invalid_timezone by (simp add: get_time_formatter_failed)
qed


text \<open>
  C5. The handlers geocode, get_weather and generate_image catch what their work
  throws and throw again: an error with message \<open>cause\<close> becomes the error whose
  message is the tool's fixed prefix followed by \<open>cause\<close> unchanged, and a thrown value
  that is not an error becomes the tool's fixed general message. So a failed request
  carries the message of the failure, a reply that is not ok carries "API request
  failed: \<open>status\<close> \<open>statusText\<close>", an empty geocoding result carries the
  address-not-found message, and an empty token carries the token-missing message,
  each behind the prefix of its tool. The handler get_time throws the error for an
  invalid time zone, made from the time zone alone, whatever the formatter threw; the
  calculator throws the division-by-zero message as it stands, for a zero divisor.
\<close>

theorem handler_error_messages:
  "(geocode_try en w query = (Inl (Error cause), requests) \<longrightarrow>
      geocode en w query = (Inl (Error (geocode_error cause)), requests))
   \<and> (geocode_try en w query = (Inl NonError, requests) \<longrightarrow>
        geocode en w query = (Inl (Error geocode_error_unknown), requests))
   \<and> (get_weather_try en w latitude longitude argument = (Inl (Error cause), requests) \<longrightarrow>
        get_weather en w latitude longitude argument =
          (Inl (Error (weather_error cause)), requests))
   \<and> (get_weather_try en w latitude longitude argument = (Inl NonError, requests) \<longrightarrow>
        get_weather en w latitude longitude argument =
          (Inl (Error weather_error_unknown), requests))
   \<and> (generate_image_try en w prompt = (Inl (Error cause), requests) \<longrightarrow>
        generate_image en w prompt = (Inl (Error (image_error cause)), requests))
   \<and> (generate_image_try en w prompt = (Inl NonError, requests) \<longrightarrow>
        generate_image en w prompt = (Inl (Error image_error_unknown), requests))
   \<and> geocode_error cause = geocode_error [] @ cause
   \<and> weather_error cause = weather_error [] @ cause
   \<and> image_error cause = image_error [] @ cause
   \<and> (fetch w (geocode_url en query) geocode_headers = Inl (Error cause) \<longrightarrow>
        geocode en w query =
          (Inl (Error (geocode_error cause)), [Fetch (geocode_url en query) geocode_headers]))
   \<and> (fetch w (geocode_url en query) geocode_headers = Inr response \<and> \<not> ok response \<longrightarrow>
        geocode en w query =
          (Inl (Error (geocode_error
                         (api_request_failed (digits (status response))
                            (statusText response)))),
           [Fetch (geocode_url en query) geocode_headers]))
   \<and> (fetch w (geocode_url en query) geocode_headers = Inr response \<and> ok response
       \<and> json response = Inr (Arr []) \<longrightarrow>
        geocode en w query =
          (Inl (Error (geocode_error (address_not_found query))),
           [Fetch (geocode_url en query) geocode_headers]))
   \<and> (fetch w (weather_url en latitude longitude
                  (case argument of None \<Rightarrow> Fin 7 | Some n \<Rightarrow> n)) [] = Inl (Error cause) \<longrightarrow>
        get_weather en w latitude longitude argument =
          (Inl (Error (weather_error cause)),
           [Fetch (weather_url en latitude longitude
                     (case argument of None \<Rightarrow> Fin 7 | Some n \<Rightarrow> n)) []]))
   \<and> (fetch w (weather_url en latitude longitude
                  (case argument of None \<Rightarrow> Fin 7 | Some n \<Rightarrow> n)) [] = Inr response
       \<and> \<not> ok response \<longrightarrow>
        get_weather en w latitude longitude argument =
          (Inl (Error (weather_error
                         (api_request_failed (digits (status response))
                            (statusText response)))),
           [Fetch (weather_url en latitude longitude
                     (case argument of None \<Rightarrow> Fin 7 | Some n \<Rightarrow> n)) []]))
   \<and> (HF_TOKEN w = [] \<longrightarrow>
        generate_image en w prompt = (Inl (Error (image_error token_missing)), []))
   \<and> (HF_TOKEN w \<noteq> [] \<and> textToImage w (HF_TOKEN w) flux_model prompt = Inl (Error cause) \<longrightarrow>
        generate_image en w prompt =
          (Inl (Error (image_error cause)), [TextToImage (HF_TOKEN w) flux_model prompt]))
   \<and> (Intl_DateTimeFormat w timezone = Inl e \<longrightarrow>
        get_time w timezone = Inl (Error (invalid_timezone timezone)))
   \<and> calculator en number1 (Fin 0) Divide = Inl (Error division_by_zero)"
proof (intro conjI impI)
  show "geocode en w query = (Inl (Error (geocode_error cause)), requests)"
    if "geocode_try en w query = (Inl (Error cause), requests)"
    using that by (simp add: geocode_caught)
  show "geocode en w query = (Inl (Error geocode_error_unknown), requests)"
    if "geocode_try en w query = (Inl NonError, requests)"
    using that by (simp add: geocode_caught)
  show "get_weather en w latitude longitude argument =
          (Inl (Error (weather_error cause)), requests)"
    if "get_weather_try en w latitude longitude argument = (Inl (Error cause), requests)"
    using that by (simp add: get_weather_caught)
  show "get_weather en w latitude longitude argument =
          (Inl (Error weather_error_unknown), requests)"
    if "get_weather_try en w latitude longitude argument = (Inl NonError, requests)"
    using that by (simp add: get_weather_caught)
  show "generate_image en w prompt = (Inl (Error (image_error cause)), requests)"
    if "generate_image_try en w prompt = (Inl (Error cause), requests)"
    using that by (simp add: generate_image_caught)
  show "generate_image en w prompt = (Inl (Error image_error_unknown), requests)"
    if "generate_image_try en w prompt = (Inl NonError, requests)"
    using that by (simp add: generate_image_caught)
  show "geocode_error cause = geocode_error [] @ cause"
    "weather_error cause = weather_error [] @ cause"
    "image_error cause = image_error [] @ cause"
    by (rule error_prefixes)+
  show "geocode en w query =
          (Inl (Error (geocode_error cause)), [Fetch (geocode_url en query) geocode_headers])"
    if "fetch w (geocode_url en query) geocode_headers = Inl (Error cause)"
    using that by (rule geocode_fetch_failed)
  show "geocode en w query =
          (Inl (Error (geocode_error
                         (api_request_failed (digits (status response))
                            (statusText response)))),
           [Fetch (geocode_url en query) geocode_headers])"
    if "fetch w (geocode_url en query) geocode_headers = Inr response \<and> \<not> ok response"
    using that by (simp add: geocode_not_ok)
  show "geocode en w query =
          (Inl (Error (geocode_error (address_not_found query))),
           [Fetch (geocode_url en query) geocode_headers])"
    if "fetch w (geocode_url en query) geocode_headers = Inr response \<and> ok response
        \<and> json response = Inr (Arr [])"
    using that by (simp add: geocode_empty)
  show "get_weather en w latitude longitude argument =
          (Inl (Error (weather_error cause)),
           [Fetch (weather_url en latitude longitude
                     (case argument of None \<Rightarrow> Fin 7 | Some n \<Rightarrow> n)) []])"
    if "fetch w (weather_url en latitude longitude
                  (case argument of None \<Rightarrow> Fin 7 | Some n \<Rightarrow> n)) [] = Inl (Error cause)"
    using that by (rule get_weather_fetch_failed)
  show "get_weather en w latitude longitude argument =
          (Inl (Error (weather_error
                         (api_request_failed (digits (status response))
                            (statusText response)))),
           [Fetch (weather_url en latitude longitude
                     (case argument of None \<Rightarrow> Fin 7 | Some n \<Rightarrow> n)) []])"
    if "fetch w (weather_url en latitude longitude
                  (case argument of None \<Rightarrow> Fin 7 | Some n \<Rightarrow> n)) [] = Inr response
        \<and> \<not> ok response"
    using that by (simp add: get_weather_not_ok)
  show "generate_image en w prompt = (Inl (Error (image_error token_missing)), [])"
    if "HF_TOKEN w = []"
    using that by (rule generate_image_no_token)
  show "generate_image en w prompt =
          (Inl (Error (image_error cause)), [TextToImage (HF_TOKEN w) flux_model prompt])"
    if "HF_TOKEN w \<noteq> [] \<and> textToImage w (HF_TOKEN w) flux_model prompt = Inl (Error cause)"
    using that by (simp add: generate_image_service_failed)
  show "get_time w timezone = Inl (Error (invalid_timezone timezone))"
    if "Intl_DateTimeFormat w timezone = Inl e"
    using that by (rule get_time_formatter_failed)
  show "calculator en number1 (Fin 0) Divide = Inl (Error division_by_zero)"
    by (rule calculator_zero_divisor)
qed

theorem handler_error_messages_witness:
  "fetch example_world (geocode_url example_engine (ascii ''Seoul'')) geocode_headers =
     Inl (Error (ascii ''fetch failed''))
   \<and> geocode example_engine example_world (ascii ''Seoul'') =
       (Inl (Error (geocode_error (ascii ''fetch failed''))),
        [Fetch (geocode_url example_engine (ascii ''Seoul'')) geocode_headers])
   \<and> geocode example_engine unavailable (ascii ''Seoul'') =
       (Inl (Error (geocode_error
                      (api_request_failed (ascii ''503'') (ascii ''Service Unavailable'')))),
        [Fetch (geocode_url example_engine (ascii ''Seoul'')) geocode_headers])
   \<and> get_weather example_engine example_world (Fin 37) (Fin 127) None =
       (Inl (Error (weather_error (ascii ''fetch failed''))),
        [Fetch (weather_url example_engine (Fin 37) (Fin 127) (Fin 7)) []])
   \<and> HF_TOKEN example_world = []
   \<and> generate_image example_engine example_world (ascii ''a cat'') =
       (Inl (Error (image_error token_missing)), [])
   \<and> Intl_DateTimeFormat example_world (ascii ''Mars/Phobos'') =
       Inl (Error (ascii ''Invalid time zone specified: Mars/Phobos''))
   \<and> get_time example_world (ascii ''Mars/Phobos'') =
       Inl (Error (invalid_timezone (ascii ''Mars/Phobos'')))"
proof -
  note inst =
    handler_error_messages
      [where en = example_engine and w = example_world and query = "ascii ''Seoul''"
         and cause = "ascii ''fetch failed''" and latitude = "Fin 37" and longitude = "Fin 127"
         and argument = None and prompt = "ascii ''a cat''"
         and timezone = "ascii ''Mars/Phobos''"
         and e = "Error (ascii ''Invalid time zone specified: Mars/Phobos'')"]
  note down =
    handler_error_messages
      [where en = example_engine and w = unavailable and query = "ascii ''Seoul''"
         and response = "\<lparr>ok = False, status = 503, statusText = ascii ''Service Unavailable'',
               json = Inl (Error (ascii ''Unexpected end of JSON input''))\<rparr>"]
  have formatter: "Intl_DateTimeFormat example_world (ascii ''Mars/Phobos'') =
       Inl (Error (ascii ''Invalid time zone specified: Mars/Phobos''))"
    by (simp add: example_world_def ascii_def)
  have "geocode example_engine example_world (ascii ''Seoul'') =
       (Inl (Error (geocode_error (ascii ''fetch failed''))),
        [Fetch (geocode_url example_engine (ascii ''Seoul'')) geocode_headers])"
    by (rule inst [THEN conjunct2, THEN conjunct2, THEN conjunct2, THEN conjunct2, THEN conjunct2, THEN conjunct2, THEN conjunct2, THEN conjunct2, THEN conjunct2, THEN conjunct1, THEN mp]) (rule example_world_fetch)
  moreover have "geocode example_engine unavailable (ascii ''Seoul'') =
       (Inl (Error (geocode_error
                      (api_request_failed (ascii ''503'') (ascii ''Service Unavailable'')))),
        [Fetch (geocode_url example_engine (ascii ''Seoul'')) geocode_headers])"
    using down [THEN conjunct2, THEN conjunct2, THEN conjunct2, THEN conjunct2, THEN conjunct2, THEN conjunct2, THEN conjunct2, THEN conjunct2, THEN conjunct2, THEN conjunct2, THEN conjunct1, THEN mp] by (simp add: unavailable_fetch digits_503)
  moreover have "get_weather example_engine example_world (Fin 37) (Fin 127) None =
       (Inl (Error (weather_error (ascii ''fetch failed''))),
        [Fetch (weather_url example_engine (Fin 37) (Fin 127) (Fin 7)) []])"
    using inst [THEN conjunct2, THEN conjunct2, THEN conjunct2, THEN conjunct2, THEN conjunct2, THEN conjunct2, THEN conjunct2, THEN conjunct2, THEN conjunct2, THEN conjunct2, THEN conjunct2, THEN conjunct2, THEN conjunct1, THEN mp] by (simp add: example_world_fetch)
  moreover have "generate_image example_engine example_world (ascii ''a cat'') =
       (Inl (Error (image_error token_missing)), [])"
    by (rule inst [THEN conjunct2, THEN conjunct2, THEN conjunct2, THEN conjunct2, THEN conjunct2, THEN conjunct2, THEN conjunct2, THEN conjunct2, THEN conjunct2, THEN conjunct2, THEN conjunct2, THEN conjunct2, THEN conjunct2, THEN conjunct2, THEN conjunct1, THEN mp]) (rule example_world_token)
  moreover have "get_time example_world (ascii ''Mars/Phobos'') =
       Inl (Error (invalid_timezone (ascii ''Mars/Phobos'')))"
    by (rule inst [THEN conjunct2, THEN conjunct2, THEN conjunct2, THEN conjunct2, THEN conjunct2, THEN conjunct2, THEN conjunct2, THEN conjunct2, THEN conjunct2, THEN conjunct2, THEN conjunct2, THEN conjunct2, THEN conjunct2, THEN conjunct2, THEN conjunct2, THEN conjunct2, THEN conjunct1, THEN mp]) (rule formatter)
  ultimately show ?thesis
    using formatter by (simp add: example_world_fetch example_world_token)
qed

end
